theory Spec2Isabelle
  imports Main
begin

section \<open>The KiCad netlist importer of pcbdl (\<^verbatim>\<open>pcbdl/kicad.py\<close>)\<close>

text \<open>
  A shallow embedding of \<^verbatim>\<open>read_kicad_netlist\<close> and its helpers. The model starts from the
  tree that the s-expression parser returns: reading the file and parsing the text are not part
  of \<^verbatim>\<open>kicad.py\<close>. Python exceptions are values of the type \<open>error\<close>; a function that can
  raise returns \<open>error + 'a\<close>, with \<open>Inl\<close> for the exception.
\<close>

subsection \<open>The parsed tree\<close>

text \<open>
  The parser returns symbols, Python strings, integers and nested lists. \<^verbatim>\<open>_Better_sexp\<close>
  wraps every nested list (\<^verbatim>\<open>_process_item\<close>) and leaves the atoms as they are, so a wrapped
  tree has the shape of the parsed one: \<open>List l\<close> stands for the \<^verbatim>\<open>_Better_sexp\<close> whose field
  \<^verbatim>\<open>l\<close> is \<open>l\<close>. A Python string is a \<open>string\<close> here; a \<open>char\<close> stands for the code point
  of the same number, so the model covers the strings whose code points are below 256.
\<close>

datatype sexp =
    Symbol string
  | Str string
  | Num int
  | List "sexp list"

text \<open>
  The exceptions that \<^verbatim>\<open>kicad.py\<close> raises or lets through. Three \<^verbatim>\<open>raise\<close> statements build a
  \<^verbatim>\<open>KeyError\<close> from a message; they are kept apart by constructor, with the data the message is
  formatted from.
\<close>

datatype error =
    KeyError string
      \<comment> \<open>\<^verbatim>\<open>raise KeyError(key)\<close> in \<^verbatim>\<open>__getitem__\<close>: no child has the tag\<close>
  | KeyError_more_than_one string
      \<comment> \<open>\<^verbatim>\<open>raise KeyError(f"More than one {key!r}, expected only one.")\<close>\<close>
  | KeyError_dict sexp
      \<comment> \<open>the \<^verbatim>\<open>KeyError\<close> of the dictionary lookup \<^verbatim>\<open>parts[...]\<close>\<close>
  | KeyError_pin_not_found sexp sexp
      \<comment> \<open>\<^verbatim>\<open>raise KeyError(f"Couldn't find pin numbered {pin_number} on {part} ...")\<close>,
          with the pin number and the reference designator of the part\<close>
  | PartNotFoundException "sexp list"
      \<comment> \<open>\<^verbatim>\<open>raise PartNotFoundException(f"Can't find part {libsource[1:]} ...")\<close>, with
          \<^verbatim>\<open>libsource[1:]\<close>; a subclass of \<^verbatim>\<open>KeyError\<close>\<close>
  | IndexError
  | AttributeError
  | TypeError
  | ValueError

fun is_KeyError :: "error \<Rightarrow> bool" where
  "is_KeyError (KeyError k) = True"
| "is_KeyError (KeyError_more_than_one k) = True"
| "is_KeyError (KeyError_dict k) = True"
| "is_KeyError (KeyError_pin_not_found n p) = True"
| "is_KeyError (PartNotFoundException l) = True"
| "is_KeyError IndexError = False"
| "is_KeyError AttributeError = False"
| "is_KeyError TypeError = False"
| "is_KeyError ValueError = False"

text \<open>
  \<^verbatim>\<open>a == b\<close> on two values taken from different places of the tree. Atoms compare by kind and
  value. \<^verbatim>\<open>_Better_sexp\<close> defines no \<^verbatim>\<open>__eq__\<close>, so a wrapped list equals only itself, and two
  values from different places are never the same object.
\<close>

fun py_eq :: "sexp \<Rightarrow> sexp \<Rightarrow> bool" where
  "py_eq (List l) b = False"
| "py_eq a (List l) = False"
| "py_eq a b = (a = b)"

subsection \<open>\<^verbatim>\<open>_Better_sexp\<close>\<close>

text \<open>
  \<^verbatim>\<open>find_all_iter\<close> is a generator. \<open>next_match key l\<close> is one \<^verbatim>\<open>next\<close> on the generator when
  the children \<open>l\<close> are still to be scanned: \<open>Inr None\<close> is \<^verbatim>\<open>StopIteration\<close>,
  \<open>Inr (Some (item, rest))\<close> is the child yielded together with the children left to scan, and
  \<open>Inl e\<close> is an exception raised while scanning. A child that is not a \<^verbatim>\<open>_Better_sexp\<close> is
  skipped. For a child that is one, \<^verbatim>\<open>item[0]\<close> raises \<^verbatim>\<open>IndexError\<close> on the empty list, and
  \<^verbatim>\<open>.value()\<close> exists on symbols only.
\<close>

fun next_match :: "string \<Rightarrow> sexp list \<Rightarrow> error + (sexp list \<times> sexp list) option" where
  "next_match key [] = Inr None"
| "next_match key (List [] # rest) = Inl IndexError"
| "next_match key (List (Symbol s # xs) # rest) =
     (if s = key then Inr (Some (Symbol s # xs, rest)) else next_match key rest)"
| "next_match key (List (x # xs) # rest) = Inl AttributeError"
| "next_match key (a # rest) = next_match key rest"

text \<open>\<^verbatim>\<open>__getitem__\<close> with a string key, on the children \<open>l\<close> of a \<^verbatim>\<open>_Better_sexp\<close>.\<close>

definition getitem :: "sexp list \<Rightarrow> string \<Rightarrow> error + sexp list" where
  "getitem l key =
     (case next_match key l of
        Inl e \<Rightarrow> Inl e
      | Inr None \<Rightarrow> Inl (KeyError key)
      | Inr (Some (ret, rest)) \<Rightarrow>
          (case next_match key rest of
             Inl e \<Rightarrow> Inl e
           | Inr None \<Rightarrow> Inr ret
           | Inr (Some found_another) \<Rightarrow> Inl (KeyError_more_than_one key)))"

text \<open>\<^verbatim>\<open>find_all\<close>: the generator run to its end, \<^verbatim>\<open>tuple(self.find_all_iter(key))\<close>.\<close>

fun find_all :: "sexp list \<Rightarrow> string \<Rightarrow> error + sexp list list" where
  "find_all [] key = Inr []"
| "find_all (List [] # rest) key = Inl IndexError"
| "find_all (List (Symbol s # xs) # rest) key =
     (case find_all rest key of
        Inl e \<Rightarrow> Inl e
      | Inr items \<Rightarrow> Inr (if s = key then (Symbol s # xs) # items else items))"
| "find_all (List (x # xs) # rest) key = Inl AttributeError"
| "find_all (a # rest) key = find_all rest key"

text \<open>
  \<^verbatim>\<open>x[key]\<close> with a string key on a value of the tree: on a string, a symbol or a number
  Python raises \<^verbatim>\<open>TypeError\<close>.
\<close>

fun subscript :: "sexp \<Rightarrow> string \<Rightarrow> error + sexp list" where
  "subscript (List l) key = getitem l key"
| "subscript a key = Inl TypeError"

text \<open>\<^verbatim>\<open>x[1]\<close> and \<^verbatim>\<open>x[2]\<close> on a \<^verbatim>\<open>_Better_sexp\<close>: \<^verbatim>\<open>self.l[key]\<close>.\<close>

fun index1 :: "sexp list \<Rightarrow> error + sexp" where
  "index1 (x0 # x1 # xs) = Inr x1"
| "index1 xs = Inl IndexError"

fun index2 :: "sexp list \<Rightarrow> error + sexp" where
  "index2 (x0 # x1 # x2 # xs) = Inr x2"
| "index2 xs = Inl IndexError"

text \<open>\<^verbatim>\<open>x[key][1]\<close>, the value of the only child tagged \<open>key\<close>.\<close>

definition field :: "sexp list \<Rightarrow> string \<Rightarrow> error + sexp" where
  "field l key = (case getitem l key of Inl e \<Rightarrow> Inl e | Inr item \<Rightarrow> index1 item)"

subsection \<open>\<^verbatim>\<open>PIN_SPLITTER_RE\<close>\<close>

text \<open>
  \<^verbatim>\<open>\s\<close> in a pattern over Python strings: the whitespace code points (those below 256).
\<close>

definition whitespace :: "char list" where
  "whitespace = [CHR 0x09, CHR 0x0A, CHR 0x0B, CHR 0x0C, CHR 0x0D, CHR 0x1C, CHR 0x1D,
                 CHR 0x1E, CHR 0x1F, CHR 0x20, CHR 0x85, CHR 0xA0]"

text \<open>The characters that the class \<^verbatim>\<open>[^\(\)/\s,]\<close> excludes.\<close>

definition is_delimiter :: "char \<Rightarrow> bool" where
  "is_delimiter c = (c = CHR ''('' \<or> c = CHR '')'' \<or> c = CHR ''/'' \<or> c \<in> set whitespace
                     \<or> c = CHR '','')"

text \<open>
  \<^verbatim>\<open>PIN_SPLITTER_RE.findall(s)\<close> for \<^verbatim>\<open>[^\(\)/\s,]+\<close>: the scan from left to right, where
  \<open>cur\<close> is the match in progress. A match is a longest run of characters of the class.
\<close>

fun scan :: "string \<Rightarrow> string \<Rightarrow> string list" where
  "scan cur [] = (if cur = [] then [] else [cur])"
| "scan cur (c # cs) =
     (if is_delimiter c then (if cur = [] then scan [] cs else cur # scan [] cs)
      else scan (cur @ [c]) cs)"

text \<open>On a value that is not a string, \<^verbatim>\<open>findall\<close> raises \<^verbatim>\<open>TypeError\<close>.\<close>

fun findall :: "sexp \<Rightarrow> error + string list" where
  "findall (Str s) = Inr (scan [] s)"
| "findall a = Inl TypeError"

subsection \<open>Results and dictionaries\<close>

text \<open>Sequencing of two steps, the first exception ending the computation.\<close>

definition and_then :: "error + 'a \<Rightarrow> ('a \<Rightarrow> error + 'b) \<Rightarrow> error + 'b" where
  "and_then m f = (case m of Inl e \<Rightarrow> Inl e | Inr x \<Rightarrow> f x)"

text \<open>A list comprehension whose element expression can raise, evaluated from left to right.\<close>

fun map_result :: "('a \<Rightarrow> error + 'b) \<Rightarrow> 'a list \<Rightarrow> error + 'b list" where
  "map_result f [] = Inr []"
| "map_result f (x # xs) =
     (case f x of
        Inl e \<Rightarrow> Inl e
      | Inr y \<Rightarrow> (case map_result f xs of Inl e \<Rightarrow> Inl e | Inr ys \<Rightarrow> Inr (y # ys)))"

text \<open>\<^verbatim>\<open>x[key][1]\<close> on a value of the tree.\<close>

definition item_field :: "sexp \<Rightarrow> string \<Rightarrow> error + sexp" where
  "item_field x key = and_then (subscript x key) index1"

text \<open>
  A Python dictionary whose keys are values of the tree, in insertion order. Keys are compared
  with \<open>py_eq\<close>; the atoms are taken to be hashable. Storing under a key that is present keeps
  the place of the key and replaces the value.
\<close>

type_synonym 'v dict = "(sexp \<times> 'v) list"

fun dict_get :: "'v dict \<Rightarrow> sexp \<Rightarrow> 'v option" where
  "dict_get [] k = None"
| "dict_get ((k', v') # d) k = (if py_eq k' k then Some v' else dict_get d k)"

fun dict_set :: "'v dict \<Rightarrow> sexp \<Rightarrow> 'v \<Rightarrow> 'v dict" where
  "dict_set [] k v = [(k, v)]"
| "dict_set ((k', v') # d) k v =
     (if py_eq k' k then (k', v) # d else (k', v') # dict_set d k v)"

fun dict_del :: "'v dict \<Rightarrow> sexp \<Rightarrow> 'v dict" where
  "dict_del [] k = []"
| "dict_del ((k', v') # d) k = (if py_eq k' k then d else (k', v') # dict_del d k)"

text \<open>\<^verbatim>\<open>d.pop(key, default)\<close>: the value and the dictionary without the key.\<close>

definition pop :: "'v dict \<Rightarrow> sexp \<Rightarrow> 'v \<Rightarrow> 'v \<times> 'v dict" where
  "pop d k dflt =
     (case dict_get d k of None \<Rightarrow> (dflt, d) | Some v \<Rightarrow> (v, dict_del d k))"

subsection \<open>Part classes: \<^verbatim>\<open>_read_kicad_netlist_partcls\<close>\<close>

text \<open>The dictionary \<^verbatim>\<open>{key: pin[key][1] for key in ["num", "name", "type"]}\<close> of one pin.\<close>

record raw_pin =
  pin_num :: sexp
  pin_name :: sexp
  pin_type :: sexp

text \<open>
  Modelled from the spec: the class \<^verbatim>\<open>Pin\<close> of \<^verbatim>\<open>pcbdl/base.py\<close>, which is not among the
  sources. The spec's PinDefinition holds the physical pin-number tokens and the name-alias
  tokens, in the order given to the constructor \<^verbatim>\<open>Pin(pin_numbers, pin_names)\<close>. The field
  \<open>kicad_pin\<close> is the attribute \<^verbatim>\<open>_kicad_pin\<close> that \<^verbatim>\<open>kicad.py\<close> sets on it.
\<close>

record pin =
  numbers :: "string list"
  names :: "string list"
  kicad_pin :: raw_pin

definition Pin :: "string list \<Rightarrow> string list \<Rightarrow> pin" where
  "Pin pin_numbers pin_names =
     \<lparr>numbers = pin_numbers, names = pin_names,
      kicad_pin = \<lparr>pin_num = Str [], pin_name = Str [], pin_type = Str []\<rparr>\<rparr>"

definition read_pin :: "sexp \<Rightarrow> error + raw_pin" where
  "read_pin p =
     and_then (item_field p ''num'') (\<lambda>num.
     and_then (item_field p ''name'') (\<lambda>name.
     and_then (item_field p ''type'') (\<lambda>type.
       Inr \<lparr>pin_num = num, pin_name = name, pin_type = type\<rparr>)))"

text \<open>
  The body of the loop \<^verbatim>\<open>for pin in pins\<close>. When \<^verbatim>\<open>pin["num"]\<close> is not a string,
  \<^verbatim>\<open>findall(pin["num"])\<close> raises \<^verbatim>\<open>TypeError\<close> whatever the name is (and for a name that is
  not a string \<^verbatim>\<open>findall(pin["name"])\<close> has raised it before), so the text that \<^verbatim>\<open>"P%s"\<close>
  formats is needed for a string only.
\<close>

definition make_pin :: "raw_pin \<Rightarrow> error + pin" where
  "make_pin p =
     (case pin_num p of
        Str num \<Rightarrow>
          (let p' = (if pin_name p = Str ''~'' then p\<lparr>pin_name := Str (''P'' @ num)\<rparr> else p)
           in and_then (findall (pin_name p')) (\<lambda>pin_names.
              and_then (findall (pin_num p')) (\<lambda>pin_numbers.
                Inr ((Pin pin_numbers pin_names)\<lparr>kicad_pin := p'\<rparr>))))
      | _ \<Rightarrow> Inl TypeError)"

text \<open>
  \<^verbatim>\<open>_read_fields\<close>: \<^verbatim>\<open>{f["name"][1]: f[2] for f in part["fields"][1:]}\<close>, the key of an entry
  evaluated before its value.
\<close>

fun read_fields_from :: "sexp list \<Rightarrow> sexp dict \<Rightarrow> error + sexp dict" where
  "read_fields_from [] d = Inr d"
| "read_fields_from (List f # fs) d =
     and_then (field f ''name'') (\<lambda>k.
     and_then (index2 f) (\<lambda>v.
       read_fields_from fs (dict_set d k v)))"
| "read_fields_from (a # fs) d = Inl TypeError"

definition read_fields :: "sexp \<Rightarrow> error + sexp dict" where
  "read_fields part =
     and_then (subscript part ''fields'') (\<lambda>fields. read_fields_from (tl fields) [])"

text \<open>
  Modelled from the spec: \<^verbatim>\<open>KicadPart.REFDES_PREFIX\<close> is inherited from the class \<^verbatim>\<open>Part\<close> of
  \<^verbatim>\<open>pcbdl/base.py\<close>, which is not among the sources; the spec gives the default prefix "U".
\<close>

definition KicadPart_REFDES_PREFIX :: sexp where
  "KicadPart_REFDES_PREFIX = Str ''U''"

datatype base_class = KicadPart | R | C

text \<open>
  The class that \<^verbatim>\<open>type(part_name, parent_classes, class_dict)\<close> creates, as the entries of
  \<^verbatim>\<open>class_dict\<close> (\<open>class_value\<close> and \<open>class_package\<close> are its keys \<^verbatim>\<open>"value"\<close> and
  \<^verbatim>\<open>"package"\<close>) and the parent classes. The text of \<^verbatim>\<open>__doc__\<close> is not modelled.
\<close>

record part_class =
  REFDES_PREFIX :: sexp
  class_value :: sexp
  class_package :: sexp
  PINS :: "pin list"
  kicad_source_structure :: sexp
  kicad_part :: string
  kicad_lib :: sexp
  kicad_description :: string
  parent_classes :: "base_class list"

text \<open>
  \<^verbatim>\<open>description + "\n\n"\<close> raises \<^verbatim>\<open>TypeError\<close> unless the description is a string, and then
  \<^verbatim>\<open>type\<close> raises \<^verbatim>\<open>TypeError\<close> unless the name of the class is one, and \<^verbatim>\<open>ValueError\<close> when
  the name holds a null character.
\<close>

definition read_kicad_netlist_partcls :: "sexp \<Rightarrow> error + part_class" where
  "read_kicad_netlist_partcls libpart =
     and_then (item_field libpart ''lib'') (\<lambda>lib.
     and_then (item_field libpart ''part'') (\<lambda>part_name.
     and_then (item_field libpart ''description'') (\<lambda>description.
     and_then (read_fields libpart) (\<lambda>fields.
     and_then (and_then (subscript libpart ''pins'') (\<lambda>ps. map_result read_pin (tl ps))) (\<lambda>pins.
     and_then (map_result make_pin pins) (\<lambda>pcbdl_pins.
       (let (refdes_prefix, fields1) = pop fields (Str ''Reference'') KicadPart_REFDES_PREFIX;
            (val, fields2) = pop fields1 (Str ''Value'') (Str '''');
            (pkg, fields3) = pop fields2 (Str ''Footprint'') (Str '''')
        in case description of
             Str d \<Rightarrow>
               (case part_name of
                  Str pn \<Rightarrow>
                    if CHR 0x00 \<in> set pn then Inl ValueError else
                    Inr \<lparr>REFDES_PREFIX = refdes_prefix,
                         class_value = val,
                         class_package = pkg,
                         PINS = pcbdl_pins,
                         kicad_source_structure = libpart,
                         kicad_part = pn,
                         kicad_lib = lib,
                         kicad_description = d,
                         parent_classes =
                           [KicadPart] @
                           (if length pcbdl_pins = 2
                            then (if refdes_prefix = Str ''R'' then [R] else []) @
                                 (if refdes_prefix = Str ''C'' then [C] else [])
                            else [])\<rparr>
                | _ \<Rightarrow> Inl TypeError)
           | _ \<Rightarrow> Inl TypeError)))))))"

subsection \<open>Parts, nets and the design they register in\<close>

text \<open>
  Modelled from the spec: an instance of a part class, built by the constructor of the class
  \<^verbatim>\<open>Part\<close> of \<^verbatim>\<open>pcbdl/base.py\<close>, which is not among the sources. By the spec the constructor
  accepts the reference designator and the value, the pins of the instance are copied from the
  template in its order, and the package is the template's until it is assigned. \<open>uid\<close> is the
  identity of the Python object: the pin at position \<open>i\<close> of the instance \<open>uid\<close> is the pin
  object \<open>(uid, i)\<close>.
\<close>

record part_instance =
  uid :: nat
  cls :: part_class
  refdes :: sexp
  part_value :: sexp
  package :: sexp
  pins :: "pin list"
  defined_at :: "string option"

type_synonym pin_id = "nat \<times> nat"

text \<open>
  Modelled from the spec: a net of \<^verbatim>\<open>pcbdl/base.py\<close>, which is not among the sources. By the
  spec the constructor accepts a name, and the net has a readable set of connected pins, kept
  here in the order of connection, and a "connect pin" operation, \<^verbatim>\<open>n << pin\<close>.
\<close>

record net =
  net_name :: sexp
  net_defined_at :: "string option"
  connections :: "pin_id list"

definition Net :: "sexp \<Rightarrow> net" where
  "Net name = \<lparr>net_name = name, net_defined_at = None, connections = []\<rparr>"

definition connect :: "net \<Rightarrow> pin_id \<Rightarrow> net" where
  "connect n p = n\<lparr>connections := connections n @ [p]\<rparr>"

text \<open>A line that \<^verbatim>\<open>print\<close> writes; its text depends on how the host formats a part.\<close>

datatype line = Does_not_have_a_footprint_defined part_instance

text \<open>
  Modelled from the spec: the ambient design of \<^verbatim>\<open>pcbdl/context.py\<close>, which is not among the
  sources. By the spec a part and a net register there when they are constructed. The state that
  a load changes outside its result is the number of parts constructed so far, which gives the
  next part its identity, the nets constructed so far, each in the state its object is in, and
  the lines printed.
\<close>

record world =
  parts_constructed :: nat
  nets :: "net list"
  stdout :: "line list"

definition Part :: "part_class \<Rightarrow> sexp \<Rightarrow> sexp \<Rightarrow> world \<Rightarrow> part_instance \<times> world" where
  "Part part_class r v w =
     (\<lparr>uid = parts_constructed w, cls = part_class, refdes = r, part_value = v,
       package = class_package part_class, pins = PINS part_class, defined_at = None\<rparr>,
      w\<lparr>parts_constructed := Suc (parts_constructed w)\<rparr>)"

subsection \<open>\<^verbatim>\<open>read_kicad_netlist\<close>: populating the parts\<close>

text \<open>
  The loop \<^verbatim>\<open>for part_class in part_classes\<close> with its \<^verbatim>\<open>break\<close>: the first class of the list
  whose library and part name equal the ones looked for; \<open>None\<close> is the \<^verbatim>\<open>else\<close> of the loop.
\<close>

fun find_part_class :: "part_class list \<Rightarrow> sexp \<Rightarrow> sexp \<Rightarrow> part_class option" where
  "find_part_class [] lib part_name = None"
| "find_part_class (part_class # part_classes) lib part_name =
     (if py_eq (kicad_lib part_class) lib \<and> py_eq (Str (kicad_part part_class)) part_name
      then Some part_class
      else find_part_class part_classes lib part_name)"

text \<open>
  The body of the loop \<^verbatim>\<open>for component in ...\<close>, up to the instance that the last line of the
  body stores in \<^verbatim>\<open>parts\<close>. \<^verbatim>\<open>except KeyError\<close> catches both \<^verbatim>\<open>KeyError\<close>s of the lookup of
  the footprint, not the \<^verbatim>\<open>IndexError\<close> of \<^verbatim>\<open>[1]\<close>.
\<close>

definition populate_part ::
  "string \<Rightarrow> part_class list \<Rightarrow> sexp \<Rightarrow> world \<Rightarrow> (error + part_instance) \<times> world" where
  "populate_part filename part_classes component w =
     (case subscript component ''libsource'' of
        Inl e \<Rightarrow> (Inl e, w)
      | Inr libsource \<Rightarrow>
     (case field libsource ''lib'' of
        Inl e \<Rightarrow> (Inl e, w)
      | Inr lib \<Rightarrow>
     (case field libsource ''part'' of
        Inl e \<Rightarrow> (Inl e, w)
      | Inr part_name \<Rightarrow>
     (case find_part_class part_classes lib part_name of
        None \<Rightarrow> (Inl (PartNotFoundException (tl libsource)), w)
      | Some part_class \<Rightarrow>
     (case item_field component ''ref'' of
        Inl e \<Rightarrow> (Inl e, w)
      | Inr r \<Rightarrow>
     (case item_field component ''value'' of
        Inl e \<Rightarrow> (Inl e, w)
      | Inr v \<Rightarrow>
     (case Part part_class r v w of
        (part_instance, w1) \<Rightarrow>
     (case item_field component ''footprint'' of
        Inr footprint \<Rightarrow>
          (Inr (part_instance\<lparr>package := footprint, defined_at := Some filename\<rparr>), w1)
      | Inl e \<Rightarrow>
          if is_KeyError e
          then (Inr (part_instance\<lparr>defined_at := Some filename\<rparr>),
                w1\<lparr>stdout := stdout w1 @ [Does_not_have_a_footprint_defined part_instance]\<rparr>)
          else (Inl e, w1)))))))))"

fun populate_parts ::
  "string \<Rightarrow> part_class list \<Rightarrow> sexp list \<Rightarrow> part_instance dict \<Rightarrow> world
    \<Rightarrow> (error + part_instance dict) \<times> world" where
  "populate_parts filename part_classes [] parts w = (Inr parts, w)"
| "populate_parts filename part_classes (component # components) parts w =
     (case populate_part filename part_classes component w of
        (Inl e, w1) \<Rightarrow> (Inl e, w1)
      | (Inr part_instance, w1) \<Rightarrow>
          populate_parts filename part_classes components
            (dict_set parts (refdes part_instance) part_instance) w1)"

subsection \<open>\<^verbatim>\<open>read_kicad_netlist\<close>: the nets\<close>

text \<open>\<^verbatim>\<open>pin_number in pin.numbers\<close>: a string of the tuple equals a string only.\<close>

fun number_in :: "sexp \<Rightarrow> string list \<Rightarrow> bool" where
  "number_in (Str s) ns = (s \<in> set ns)"
| "number_in a ns = False"

text \<open>
  The loop \<^verbatim>\<open>for pin in part.pins\<close> with its \<^verbatim>\<open>break\<close>: the position of the first pin whose
  numbers hold the pin number; \<open>None\<close> is the \<^verbatim>\<open>else\<close> of the loop.
\<close>

fun find_pin :: "sexp \<Rightarrow> pin list \<Rightarrow> nat option" where
  "find_pin pin_number [] = None"
| "find_pin pin_number (p # ps) =
     (if number_in pin_number (numbers p) then Some 0
      else map_option Suc (find_pin pin_number ps))"

text \<open>The body of the loop \<^verbatim>\<open>for node in nodes\<close>, on the net \<open>n\<close>.\<close>

definition connect_node :: "part_instance dict \<Rightarrow> net \<Rightarrow> sexp list \<Rightarrow> error + net" where
  "connect_node parts n node =
     and_then (field node ''pin'') (\<lambda>pin_number.
     and_then (field node ''ref'') (\<lambda>r.
       (case dict_get parts r of
          None \<Rightarrow> Inl (KeyError_dict r)
        | Some part \<Rightarrow>
            (case find_pin pin_number (pins part) of
               None \<Rightarrow> Inl (KeyError_pin_not_found pin_number (refdes part))
             | Some i \<Rightarrow>
                 Inr (if (uid part, i) \<notin> set (connections n) then connect n (uid part, i)
                      else n)))))"

text \<open>
  The loop over the nodes: the exception that ended it, if one did, and the net as the loop
  left it.
\<close>

fun connect_nodes :: "part_instance dict \<Rightarrow> net \<Rightarrow> sexp list list \<Rightarrow> error option \<times> net" where
  "connect_nodes parts n [] = (None, n)"
| "connect_nodes parts n (node # nodes) =
     (case connect_node parts n node of
        Inl e \<Rightarrow> (Some e, n)
      | Inr n1 \<Rightarrow> connect_nodes parts n1 nodes)"

text \<open>\<^verbatim>\<open>name.startswith(prefix)\<close>: a method of strings only.\<close>

fun startswith :: "sexp \<Rightarrow> string \<Rightarrow> error + bool" where
  "startswith (Str s) p = Inr (take (length p) s = p)"
| "startswith a p = Inl AttributeError"

text \<open>
  The test \<^verbatim>\<open>len(nodes) == 1 and name.startswith("Net-")\<close>; \<^verbatim>\<open>and\<close> evaluates its second
  operand only when the first holds.
\<close>

definition goes_nowhere :: "sexp list list \<Rightarrow> sexp \<Rightarrow> error + bool" where
  "goes_nowhere nodes name = (if length nodes = 1 then startswith name ''Net-'' else Inr False)"

text \<open>
  The body of the loop \<^verbatim>\<open>for net_sexp in ...\<close>. A net registers when it is constructed, so it
  stays in the design, as far as it got connected, when a node raises.
\<close>

definition build_net ::
  "string \<Rightarrow> part_instance dict \<Rightarrow> sexp \<Rightarrow> world \<Rightarrow> (error + unit) \<times> world" where
  "build_net filename parts net_sexp w =
     (case net_sexp of
        List l \<Rightarrow>
          (case field l ''name'' of
             Inl e \<Rightarrow> (Inl e, w)
           | Inr name \<Rightarrow>
          (case find_all l ''node'' of
             Inl e \<Rightarrow> (Inl e, w)
           | Inr nodes \<Rightarrow>
          (case goes_nowhere nodes name of
             Inl e \<Rightarrow> (Inl e, w)
           | Inr True \<Rightarrow> (Inr (), w)
           | Inr False \<Rightarrow>
               (case connect_nodes parts ((Net name)\<lparr>net_defined_at := Some filename\<rparr>) nodes of
                  (None, n) \<Rightarrow> (Inr (), w\<lparr>nets := nets w @ [n]\<rparr>)
                | (Some e, n) \<Rightarrow> (Inl e, w\<lparr>nets := nets w @ [n]\<rparr>)))))
      | _ \<Rightarrow> (Inl TypeError, w))"

fun build_nets ::
  "string \<Rightarrow> part_instance dict \<Rightarrow> sexp list \<Rightarrow> world \<Rightarrow> (error + unit) \<times> world" where
  "build_nets filename parts [] w = (Inr (), w)"
| "build_nets filename parts (net_sexp # net_sexps) w =
     (case build_net filename parts net_sexp w of
        (Inl e, w1) \<Rightarrow> (Inl e, w1)
      | (Inr u, w1) \<Rightarrow> build_nets filename parts net_sexps w1)"

subsection \<open>\<^verbatim>\<open>read_kicad_netlist\<close>\<close>

text \<open>
  The load, from the parsed tree \<open>netlist_contents\<close> of the file \<open>filename\<close>, in the design
  \<open>w\<close>: the exception raised or the pair that is returned, and the design afterwards.
\<close>

definition read_kicad_netlist ::
  "string \<Rightarrow> sexp list \<Rightarrow> world \<Rightarrow> (error + part_instance dict \<times> sexp list) \<times> world" where
  "read_kicad_netlist filename netlist_contents w =
     (case getitem netlist_contents ''libparts'' of
        Inl e \<Rightarrow> (Inl e, w)
      | Inr libparts \<Rightarrow>
     (case map_result read_kicad_netlist_partcls (tl libparts) of
        Inl e \<Rightarrow> (Inl e, w)
      | Inr part_classes \<Rightarrow>
     (case getitem netlist_contents ''components'' of
        Inl e \<Rightarrow> (Inl e, w)
      | Inr components \<Rightarrow>
     (case populate_parts filename part_classes (tl components) [] w of
        (Inl e, w1) \<Rightarrow> (Inl e, w1)
      | (Inr parts, w1) \<Rightarrow>
     (case getitem netlist_contents ''nets'' of
        Inl e \<Rightarrow> (Inl e, w1)
      | Inr net_sexps \<Rightarrow>
     (case build_nets filename parts (tl net_sexps) w1 of
        (Inl e, w2) \<Rightarrow> (Inl e, w2)
      | (Inr u, w2) \<Rightarrow> (Inr (parts, netlist_contents), w2)))))))"

subsection \<open>Notions that the statements use\<close>

text \<open>A child that is a list tagged \<open>key\<close>: its first element is the symbol \<open>key\<close>.\<close>

fun has_tag :: "string \<Rightarrow> sexp \<Rightarrow> bool" where
  "has_tag key (List (Symbol s # xs)) = (s = key)"
| "has_tag key x = False"

text \<open>
  A child that the scan of \<^verbatim>\<open>find_all_iter\<close> passes without an exception: an atom, or a list
  that starts with a symbol.
\<close>

fun scannable :: "sexp \<Rightarrow> bool" where
  "scannable (List []) = False"
| "scannable (List (Symbol s # xs)) = True"
| "scannable (List (x # xs)) = False"
| "scannable a = True"

text \<open>
  Splitting as the spec words it. \<open>pieces s\<close> are the stretches of \<open>s\<close> between one delimiter
  character and the next; splitting on runs of delimiters leaves out the empty ones.
\<close>

fun pieces :: "string \<Rightarrow> string list" where
  "pieces [] = [[]]"
| "pieces (c # cs) =
     (if is_delimiter c then [] # pieces cs
      else (case pieces cs of [] \<Rightarrow> [[c]] | p # ps \<Rightarrow> (c # p) # ps))"

definition split_on_delimiters :: "string \<Rightarrow> string list" where
  "split_on_delimiters s = filter (\<lambda>t. t \<noteq> []) (pieces s)"

text \<open>
  The test of the loop \<^verbatim>\<open>for part_class in part_classes\<close>: the class \<open>part_class\<close> matches the
  library \<open>lib\<close> and the part name \<open>part_name\<close> of a component.
\<close>

definition matches :: "sexp \<Rightarrow> sexp \<Rightarrow> part_class \<Rightarrow> bool" where
  "matches lib part_name part_class =
     (py_eq (kicad_lib part_class) lib \<and> py_eq (Str (kicad_part part_class)) part_name)"

text \<open>A child of the form \<^verbatim>\<open>(key v ...)\<close>: a list tagged \<open>key\<close> whose second element is \<open>v\<close>.\<close>

fun tags_value :: "string \<Rightarrow> sexp \<Rightarrow> sexp \<Rightarrow> bool" where
  "tags_value key v (List (Symbol s # x # xs)) = (s = key \<and> x = v)"
| "tags_value key v a = False"

text \<open>
  The component has the reference designator \<open>r\<close>: its \<^verbatim>\<open>ref\<close> is a value that Python's
  \<^verbatim>\<open>==\<close> and the dictionary take for \<open>r\<close>.
\<close>

definition same_refdes :: "sexp \<Rightarrow> sexp \<Rightarrow> bool" where
  "same_refdes r component =
     (case item_field component ''ref'' of Inl e \<Rightarrow> False | Inr r' \<Rightarrow> py_eq r' r)"

subsection \<open>A small netlist for the examples\<close>

text \<open>
  One library part, a resistor whose first pin is unnamed and gangs the physical pins 1 and 3,
  components that use it, and three nets: one with a single node and a generated name, one
  with a generated name that lists the first pin of \<^verbatim>\<open>R1\<close> through both of its physical
  numbers, and one that refers to a pin number that the part does not have.
\<close>

text \<open>A small tagged list for the examples: children tagged \<open>a\<close> once, \<open>b\<close> twice, \<open>c\<close> never.\<close>

definition example_children :: "sexp list" where
  "example_children =
     [Symbol ''top'', List [Symbol ''a'', Str ''1''], Str ''text'', List [Symbol ''b''],
      List [Symbol ''b'', Num 2]]"

definition tagged :: "string \<Rightarrow> string \<Rightarrow> sexp" where
  "tagged t v = List [Symbol t, Str v]"

definition example_libpart :: sexp where
  "example_libpart =
     List [Symbol ''libpart'', tagged ''lib'' ''Device'', tagged ''part'' ''R'',
           tagged ''description'' ''Resistor'',
           List [Symbol ''fields'',
                 List [Symbol ''field'', tagged ''name'' ''Reference'', Str ''R'']],
           List [Symbol ''pins'',
                 List [Symbol ''pin'', tagged ''num'' ''1,3'', tagged ''name'' ''~'',
                       tagged ''type'' ''passive''],
                 List [Symbol ''pin'', tagged ''num'' ''2'', tagged ''name'' ''A/B'',
                       tagged ''type'' ''passive'']]]"

definition example_pins :: "pin list" where
  "example_pins =
     [\<lparr>numbers = [''1'', ''3''], names = [''P1'', ''3''],
       kicad_pin = \<lparr>pin_num = Str ''1,3'', pin_name = Str ''P1,3'', pin_type = Str ''passive''\<rparr>\<rparr>,
      \<lparr>numbers = [''2''], names = [''A'', ''B''],
       kicad_pin = \<lparr>pin_num = Str ''2'', pin_name = Str ''A/B'', pin_type = Str ''passive''\<rparr>\<rparr>]"

definition example_class :: part_class where
  "example_class =
     \<lparr>REFDES_PREFIX = Str ''R'', class_value = Str '''', class_package = Str '''',
      PINS = example_pins, kicad_source_structure = example_libpart, kicad_part = ''R'',
      kicad_lib = Str ''Device'', kicad_description = ''Resistor'',
      parent_classes = [KicadPart, R]\<rparr>"


definition example_libsource :: "sexp list" where
  "example_libsource = [Symbol ''libsource'', tagged ''lib'' ''Device'', tagged ''part'' ''R'']"

definition example_component :: "string \<Rightarrow> string \<Rightarrow> sexp" where
  "example_component r v =
     List [Symbol ''comp'', tagged ''ref'' r, tagged ''value'' v,
           tagged ''footprint'' ''R_0603'', List example_libsource]"

definition example_bare_component :: "sexp list" where
  "example_bare_component =
     [Symbol ''comp'', tagged ''ref'' ''R3'', tagged ''value'' ''1k'', List example_libsource]"

definition example_unmatched_libsource :: "sexp list" where
  "example_unmatched_libsource =
     [Symbol ''libsource'', tagged ''lib'' ''Device'', tagged ''part'' ''Q'']"

definition example_unmatched_component :: sexp where
  "example_unmatched_component =
     List [Symbol ''comp'', tagged ''ref'' ''Q1'', tagged ''value'' ''BC547'',
           List example_unmatched_libsource]"

definition example_world :: world where
  "example_world = \<lparr>parts_constructed = 0, nets = [], stdout = []\<rparr>"

definition example_instance :: "nat \<Rightarrow> string \<Rightarrow> string \<Rightarrow> part_instance" where
  "example_instance i r v =
     \<lparr>uid = i, cls = example_class, refdes = Str r, part_value = Str v,
      package = Str ''R_0603'', pins = example_pins, defined_at = Some ''example.net''\<rparr>"

definition example_parts :: "part_instance dict" where
  "example_parts =
     [(Str ''R1'', example_instance 0 ''R1'' ''10k''), (Str ''R2'', example_instance 1 ''R2'' ''22k'')]"

definition example_node :: "string \<Rightarrow> string \<Rightarrow> sexp list" where
  "example_node r p = [Symbol ''node'', tagged ''ref'' r, tagged ''pin'' p]"

definition example_single_net :: "sexp list" where
  "example_single_net =
     [Symbol ''net'', tagged ''code'' ''1'', tagged ''name'' ''Net-(R1-Pad2)'',
      List (example_node ''R1'' ''2'')]"

definition example_ganged_net :: "sexp list" where
  "example_ganged_net =
     [Symbol ''net'', tagged ''code'' ''2'', tagged ''name'' ''Net-(R1-Pad1)'',
      List (example_node ''R1'' ''1''), List (example_node ''R1'' ''3''),
      List (example_node ''R2'' ''2'')]"

definition example_bad_net :: "sexp list" where
  "example_bad_net =
     [Symbol ''net'', tagged ''code'' ''3'', tagged ''name'' ''GND'',
      List (example_node ''R2'' ''1''), List (example_node ''R1'' ''9'')]"

definition example_floating_net :: "sexp list" where
  "example_floating_net =
     [Symbol ''net'', tagged ''code'' ''4'', tagged ''name'' ''Net-(R1-Pad9)'',
      List (example_node ''R1'' ''9'')]"

definition example_netlist :: "sexp list \<Rightarrow> sexp list \<Rightarrow> sexp list" where
  "example_netlist components net_sexps =
     [Symbol ''export'', List (Symbol ''components'' # components),
      List [Symbol ''libparts'', example_libpart], List (Symbol ''nets'' # net_sexps)]"

section \<open>Properties\<close>

subsection \<open>Unique lookup by tag\<close>

lemma next_match_no_error:
  "list_all scannable l \<Longrightarrow> next_match key l \<noteq> Inl e"
  by (induction key l rule: next_match.induct) auto

lemma next_match_None:
  "list_all scannable l \<Longrightarrow> next_match key l = Inr None \<Longrightarrow> filter (has_tag key) l = []"
  by (induction key l rule: next_match.induct) (auto split: if_splits)

lemma next_match_Some:
  "list_all scannable l \<Longrightarrow> next_match key l = Inr (Some (item, rest)) \<Longrightarrow>
   filter (has_tag key) l = List item # filter (has_tag key) rest \<and> list_all scannable rest"
  by (induction key l rule: next_match.induct) (auto split: if_splits)

lemma getitem_scannable:
  assumes "list_all scannable l"
  shows "getitem l key =
     (case filter (has_tag key) l of
        [] \<Rightarrow> Inl (KeyError key)
      | [x] \<Rightarrow> (case x of List item \<Rightarrow> Inr item | _ \<Rightarrow> Inl TypeError)
      | x # y # others \<Rightarrow> Inl (KeyError_more_than_one key))"
proof (cases "next_match key l")
  case (Inl e)
  with assms show ?thesis by (simp add: next_match_no_error)
next
  case (Inr r)
  show ?thesis
  proof (cases r)
    case None
    with Inr assms show ?thesis by (simp add: getitem_def next_match_None)
  next
    case (Some p)
    obtain item rest where p: "p = (item, rest)" by (cases p)
    from assms Inr Some p have
      f: "filter (has_tag key) l = List item # filter (has_tag key) rest" and
      sc: "list_all scannable rest"
      using next_match_Some by blast+
    show ?thesis
    proof (cases "next_match key rest")
      case (Inl e)
      with sc show ?thesis by (simp add: next_match_no_error)
    next
      case Inr2: (Inr r2)
      show ?thesis
      proof (cases r2)
        case None
        with Inr2 sc have "filter (has_tag key) rest = []" by (simp add: next_match_None)
        with Inr Some p Inr2 None f show ?thesis by (simp add: getitem_def)
      next
        case Some2: (Some p2)
        obtain item2 rest2 where "p2 = (item2, rest2)" by (cases p2)
        with sc Inr2 Some2
        have "filter (has_tag key) rest = List item2 # filter (has_tag key) rest2"
          using next_match_Some by blast
        with Inr Some p Inr2 Some2 f show ?thesis by (simp add: getitem_def)
      qed
    qed
  qed
qed

text \<open>
  Claim C7, as the code has it. When every child of a tagged list is an atom or a list that
  starts with a symbol, the lookup \<^verbatim>\<open>x[key]\<close> goes by the number of children tagged \<open>key\<close>:
  with none it raises \<^verbatim>\<open>KeyError(key)\<close>, with exactly one it returns that child, and with more
  than one it raises the \<^verbatim>\<open>KeyError\<close> "More than one ..., expected only one.".
\<close>

theorem unique_by_tag_lookup:
  assumes "list_all scannable l"
  shows "(filter (has_tag key) l = [] \<longrightarrow> getitem l key = Inl (KeyError key)) \<and>
         (\<forall>item. filter (has_tag key) l = [List item] \<longrightarrow> getitem l key = Inr item) \<and>
         (1 < length (filter (has_tag key) l) \<longrightarrow>
            getitem l key = Inl (KeyError_more_than_one key))"
proof (intro conjI allI impI)
  assume "filter (has_tag key) l = []"
  with assms show "getitem l key = Inl (KeyError key)"
    by (simp add: getitem_scannable)
next
  fix item
  assume "filter (has_tag key) l = [List item]"
  with assms show "getitem l key = Inr item"
    by (simp add: getitem_scannable)
next
  assume "1 < length (filter (has_tag key) l)"
  then obtain x y others where "filter (has_tag key) l = x # y # others"
    by (cases "filter (has_tag key) l" rule: list.exhaust, simp)
       (metis One_nat_def length_Cons less_numeral_extra(4) list.exhaust list.size(3))
  with assms show "getitem l key = Inl (KeyError_more_than_one key)"
    by (simp add: getitem_scannable)
qed

theorem unique_by_tag_lookup_witness:
  "list_all scannable example_children \<and>
   filter (has_tag ''c'') example_children = [] \<and>
   getitem example_children ''c'' = Inl (KeyError ''c'') \<and>
   filter (has_tag ''a'') example_children = [List [Symbol ''a'', Str ''1'']] \<and>
   getitem example_children ''a'' = Inr [Symbol ''a'', Str ''1''] \<and>
   1 < length (filter (has_tag ''b'') example_children) \<and>
   getitem example_children ''b'' = Inl (KeyError_more_than_one ''b'')"
proof -
  have s: "list_all scannable example_children"
    by (simp add: example_children_def)
  have c: "filter (has_tag ''c'') example_children = []"
    by (simp add: example_children_def)
  have a: "filter (has_tag ''a'') example_children = [List [Symbol ''a'', Str ''1'']]"
    by (simp add: example_children_def)
  have b: "1 < length (filter (has_tag ''b'') example_children)"
    by (simp add: example_children_def)
  from unique_by_tag_lookup [OF s, of "''c''"] c
  have "getitem example_children ''c'' = Inl (KeyError ''c'')" by blast
  moreover from unique_by_tag_lookup [OF s, of "''a''"] a
  have "getitem example_children ''a'' = Inr [Symbol ''a'', Str ''1'']" by blast
  moreover from unique_by_tag_lookup [OF s, of "''b''"] b
  have "getitem example_children ''b'' = Inl (KeyError_more_than_one ''b'')" by blast
  ultimately show ?thesis using s c a b by simp
qed

text \<open>
  The claim C7 as the spec states it, for every tagged list, fails: the list below has exactly
  one child tagged \<open>x\<close>, and the lookup raises \<^verbatim>\<open>IndexError\<close>, because the scan for a second
  match reaches the empty list and evaluates \<^verbatim>\<open>item[0]\<close> on it.
\<close>

theorem unique_by_tag_lookup_counterexample:
  "filter (has_tag ''x'') [List [Symbol ''x'', Str ''v''], List []] = [List [Symbol ''x'', Str ''v'']] \<and>
   getitem [List [Symbol ''x'', Str ''v''], List []] ''x'' = Inl IndexError"
  by (simp add: getitem_def)

subsection \<open>The pin-name tokenizer\<close>

lemma pieces_not_Nil: "pieces s \<noteq> []"
  by (induction s) (auto split: list.splits)

lemma scan_pieces:
  "scan cur s = filter (\<lambda>t. t \<noteq> []) ((cur @ hd (pieces s)) # tl (pieces s))"
proof (induction s arbitrary: cur)
  case Nil
  then show ?case by simp
next
  case (Cons c cs)
  obtain p ps where p: "pieces cs = p # ps"
    using pieces_not_Nil by (cases "pieces cs") auto
  show ?case
  proof (cases "is_delimiter c")
    case True
    with p Cons [of "[]"] show ?thesis by simp
  next
    case False
    with p Cons [of "cur @ [c]"] show ?thesis by simp
  qed
qed

lemma scan_split: "scan [] s = split_on_delimiters s"
  using pieces_not_Nil [of s]
  by (cases "pieces s") (simp_all add: scan_pieces split_on_delimiters_def)

lemma pieces_no_delimiter: "\<forall>c\<in>set s. \<not> is_delimiter c \<Longrightarrow> pieces s = [s]"
  by (induction s) auto

lemma P_not_delimiter: "\<not> is_delimiter CHR ''P''"
  by (simp add: is_delimiter_def whitespace_def)

text \<open>
  Claim C6, as the code has it. For a libpart pin whose raw number and raw name are strings,
  the number set is the raw number split on runs of the delimiters \<^verbatim>\<open>( ) / ,\<close> and whitespace,
  and the alias set is the raw name split the same way. When the raw name is exactly \<^verbatim>\<open>~\<close>, the
  name becomes \<^verbatim>\<open>P\<close> followed by the raw number, and this name is split like any other: it is
  the one alias of the pin when the raw number holds no delimiter.
\<close>

theorem pin_tokenizer:
  "make_pin \<lparr>pin_num = Str num, pin_name = Str name, pin_type = t\<rparr> =
     Inr \<lparr>numbers = split_on_delimiters num,
          names = split_on_delimiters (if name = ''~'' then ''P'' @ num else name),
          kicad_pin = \<lparr>pin_num = Str num,
                       pin_name = Str (if name = ''~'' then ''P'' @ num else name),
                       pin_type = t\<rparr>\<rparr> \<and>
   (\<not> list_ex is_delimiter num \<longrightarrow> split_on_delimiters (''P'' @ num) = [''P'' @ num])"
proof
  show "make_pin \<lparr>pin_num = Str num, pin_name = Str name, pin_type = t\<rparr> =
     Inr \<lparr>numbers = split_on_delimiters num,
          names = split_on_delimiters (if name = ''~'' then ''P'' @ num else name),
          kicad_pin = \<lparr>pin_num = Str num,
                       pin_name = Str (if name = ''~'' then ''P'' @ num else name),
                       pin_type = t\<rparr>\<rparr>"
    by (simp add: make_pin_def and_then_def Pin_def scan_split del: scan.simps)
next
  show "\<not> list_ex is_delimiter num \<longrightarrow> split_on_delimiters (''P'' @ num) = [''P'' @ num]"
  proof
    assume "\<not> list_ex is_delimiter num"
    then have "\<forall>c\<in>set (''P'' @ num). \<not> is_delimiter c"
      using P_not_delimiter by (simp add: list_ex_iff)
    then have "pieces (''P'' @ num) = [''P'' @ num]"
      by (rule pieces_no_delimiter)
    then show "split_on_delimiters (''P'' @ num) = [''P'' @ num]"
      by (simp add: split_on_delimiters_def)
  qed
qed

theorem pin_tokenizer_witness:
  "make_pin \<lparr>pin_num = Str ''1,3'', pin_name = Str ''A/B'', pin_type = Str ''passive''\<rparr> =
     Inr \<lparr>numbers = [''1'', ''3''], names = [''A'', ''B''],
          kicad_pin = \<lparr>pin_num = Str ''1,3'', pin_name = Str ''A/B'',
                       pin_type = Str ''passive''\<rparr>\<rparr> \<and>
   \<not> list_ex is_delimiter ''7'' \<and>
   make_pin \<lparr>pin_num = Str ''7'', pin_name = Str ''~'', pin_type = Str ''passive''\<rparr> =
     Inr \<lparr>numbers = [''7''], names = [''P7''],
          kicad_pin = \<lparr>pin_num = Str ''7'', pin_name = Str ''P7'',
                       pin_type = Str ''passive''\<rparr>\<rparr>"
proof -
  have d: "\<not> list_ex is_delimiter ''7''"
    by (simp add: is_delimiter_def whitespace_def)
  have n: "split_on_delimiters ''1,3'' = [''1'', ''3'']"
    by (simp add: split_on_delimiters_def is_delimiter_def whitespace_def)
  have a: "split_on_delimiters ''A/B'' = [''A'', ''B'']"
    by (simp add: split_on_delimiters_def is_delimiter_def whitespace_def)
  have s: "split_on_delimiters ''7'' = [''7'']"
    by (simp add: split_on_delimiters_def is_delimiter_def whitespace_def)
  from pin_tokenizer [of "''7''" "''~''" "Str ''passive''"] d
  have "make_pin \<lparr>pin_num = Str ''7'', pin_name = Str ''~'', pin_type = Str ''passive''\<rparr> =
     Inr \<lparr>numbers = [''7''], names = [''P7''],
          kicad_pin = \<lparr>pin_num = Str ''7'', pin_name = Str ''P7'',
                       pin_type = Str ''passive''\<rparr>\<rparr>"
    using s by simp
  moreover from pin_tokenizer [of "''1,3''" "''A/B''" "Str ''passive''"]
  have "make_pin \<lparr>pin_num = Str ''1,3'', pin_name = Str ''A/B'', pin_type = Str ''passive''\<rparr> =
     Inr \<lparr>numbers = [''1'', ''3''], names = [''A'', ''B''],
          kicad_pin = \<lparr>pin_num = Str ''1,3'', pin_name = Str ''A/B'',
                       pin_type = Str ''passive''\<rparr>\<rparr>"
    using n a by simp
  ultimately show ?thesis using d by simp
qed

text \<open>
  The claim C6 as the spec states it fails where it says that the name \<^verbatim>\<open>P\<close> followed by the
  pin number stands instead of being tokenized: for the unnamed pin with the raw number
  \<^verbatim>\<open>1,3\<close> the name becomes \<^verbatim>\<open>P1,3\<close> and is tokenized, so the aliases are \<^verbatim>\<open>P1\<close> and \<^verbatim>\<open>3\<close>.
\<close>

theorem pin_tokenizer_counterexample:
  "make_pin \<lparr>pin_num = Str ''1,3'', pin_name = Str ''~'', pin_type = Str ''passive''\<rparr> =
     Inr \<lparr>numbers = [''1'', ''3''], names = [''P1'', ''3''],
          kicad_pin = \<lparr>pin_num = Str ''1,3'', pin_name = Str ''P1,3'',
                       pin_type = Str ''passive''\<rparr>\<rparr>"
  by (simp add: make_pin_def and_then_def Pin_def is_delimiter_def whitespace_def)

subsection \<open>Lookups that succeed\<close>

text \<open>
  A lookup that returns has scanned all the children, so each of them is an atom or a list that
  starts with a symbol; a later lookup on the same list can then only raise a \<^verbatim>\<open>KeyError\<close>.
\<close>

lemma next_match_None_scannable:
  "next_match key l = Inr None \<Longrightarrow> list_all scannable l"
  by (induction key l rule: next_match.induct) (auto split: if_splits)

lemma next_match_Some_scannable:
  "next_match key l = Inr (Some (item, rest)) \<Longrightarrow> list_all scannable rest \<Longrightarrow> list_all scannable l"
  by (induction key l rule: next_match.induct) (auto split: if_splits)

lemma next_match_Some_mem:
  "next_match key l = Inr (Some (item, rest)) \<Longrightarrow>
     List item \<in> set l \<and> has_tag key (List item)"
  by (induction key l rule: next_match.induct) (auto split: if_splits)

lemma getitem_Inr_scannable:
  assumes "getitem l key = Inr item"
  shows "list_all scannable l"
  using assms next_match_None_scannable next_match_Some_scannable
  by (fastforce simp: getitem_def split: sum.splits option.splits prod.splits)

lemma getitem_Inr_mem:
  assumes "getitem l key = Inr item"
  shows "List item \<in> set l \<and> has_tag key (List item)"
  using assms next_match_Some_mem
  by (fastforce simp: getitem_def split: sum.splits option.splits prod.splits)

lemma getitem_errors:
  assumes "list_all scannable l" "getitem l key = Inl e"
  shows "e = KeyError key \<or> e = KeyError_more_than_one key"
proof (cases "next_match key l")
  case (Inl e')
  with assms(1) show ?thesis by (simp add: next_match_no_error)
next
  case (Inr r)
  show ?thesis
  proof (cases r)
    case None
    with Inr assms(2) show ?thesis by (simp add: getitem_def)
  next
    case (Some p)
    obtain item rest where p: "p = (item, rest)" by (cases p)
    with assms(1) Inr Some have "list_all scannable rest"
      using next_match_Some by blast
    then have "\<And>e'. next_match key rest \<noteq> Inl e'" by (simp add: next_match_no_error)
    with Inr Some p assms(2) show ?thesis
      by (auto simp: getitem_def split: sum.splits option.splits)
  qed
qed

lemma item_field_errors:
  assumes "subscript component key' = Inr x" "item_field component key = Inl e"
  shows "is_KeyError e \<or> e = IndexError"
proof -
  obtain l where l: "component = List l" using assms(1) by (cases component) auto
  with assms(1) have sc: "list_all scannable l" by (auto dest: getitem_Inr_scannable)
  show ?thesis
  proof (cases "getitem l key")
    case (Inl e')
    with sc getitem_errors have "is_KeyError e'" by fastforce
    with Inl l assms(2) show ?thesis by (simp add: item_field_def and_then_def)
  next
    case (Inr item)
    with l assms(2) have "index1 item = Inl e" by (simp add: item_field_def and_then_def)
    then have "e = IndexError" by (cases item rule: index1.cases) auto
    then show ?thesis by simp
  qed
qed

lemma field_tags_value:
  assumes "field l key = Inr v"
  shows "list_ex (tags_value key v) l"
proof -
  from assms obtain item where g: "getitem l key = Inr item" and i: "index1 item = Inr v"
    by (auto simp: field_def split: sum.splits)
  from g have m: "List item \<in> set l" and t: "has_tag key (List item)"
    using getitem_Inr_mem by blast+
  from i t have "tags_value key v (List item)"
    by (cases item rule: index1.cases) (auto elim: has_tag.elims)
  with m show ?thesis by (auto simp: list_ex_iff)
qed

lemma tagged_list_tl:
  assumes "subscript component key = Inr l" "list_ex (tags_value key' v) l"
  shows "list_ex (tags_value key' v) (tl l)"
proof -
  obtain c where "component = List c" using assms(1) by (cases component) auto
  with assms(1) have "has_tag key (List l)" using getitem_Inr_mem by auto
  then obtain xs where "l = Symbol key # xs" by (auto elim: has_tag.elims)
  with assms(2) show ?thesis by simp
qed

subsection \<open>The dictionary\<close>

lemma py_eq_iff: "py_eq a b = (a = b \<and> (\<forall>l. a \<noteq> List l))"
  by (cases "(a, b)" rule: py_eq.cases) auto

lemma dict_set_mem: "(k, v) \<in> set (dict_set d k v)"
  by (induction d) (auto simp: py_eq_iff)

lemma dict_get_set: "dict_get (dict_set d k v) k' = (if py_eq k k' then Some v else dict_get d k')"
  by (induction d) (auto simp: py_eq_iff)

subsection \<open>The loop over the components\<close>

lemma find_part_class_filter:
  "find_part_class pcs lib pn =
     (case filter (matches lib pn) pcs of [] \<Rightarrow> None | pc # others \<Rightarrow> Some pc)"
  by (induction pcs) (auto simp: matches_def)

lemma populate_part_resolved:
  assumes "subscript component ''libsource'' = Inr libsource"
    and "field libsource ''lib'' = Inr lib"
    and "field libsource ''part'' = Inr part_name"
    and "find_part_class part_classes lib part_name = Some part_class"
    and "item_field component ''ref'' = Inr r"
    and "item_field component ''value'' = Inr v"
  shows "populate_part filename part_classes component w =
     (case item_field component ''footprint'' of
        Inr footprint \<Rightarrow>
          (Inr ((fst (Part part_class r v w))\<lparr>package := footprint, defined_at := Some filename\<rparr>),
           snd (Part part_class r v w))
      | Inl e \<Rightarrow>
          if is_KeyError e
          then (Inr ((fst (Part part_class r v w))\<lparr>defined_at := Some filename\<rparr>),
                (snd (Part part_class r v w))\<lparr>stdout := stdout w @
                   [Does_not_have_a_footprint_defined (fst (Part part_class r v w))]\<rparr>)
          else (Inl e, snd (Part part_class r v w)))"
  using assms by (simp add: populate_part_def Part_def split: sum.splits)

lemma populate_part_unmatched:
  assumes "subscript component ''libsource'' = Inr libsource"
    and "field libsource ''lib'' = Inr lib"
    and "field libsource ''part'' = Inr part_name"
    and "find_part_class part_classes lib part_name = None"
  shows "populate_part filename part_classes component w =
           (Inl (PartNotFoundException (tl libsource)), w)"
  using assms by (simp add: populate_part_def)

lemma populate_parts_append:
  "populate_parts filename pcs (xs @ ys) parts w =
     (case populate_parts filename pcs xs parts w of
        (Inl e, w1) \<Rightarrow> (Inl e, w1)
      | (Inr parts1, w1) \<Rightarrow> populate_parts filename pcs ys parts1 w1)"
  by (induction xs arbitrary: parts w) (auto split: prod.splits sum.splits)

lemma populate_part_Inr:
  assumes "populate_part filename part_classes component w = (Inr inst, w1)"
  shows "item_field component ''ref'' = Inr (refdes inst) \<and> uid inst = parts_constructed w \<and>
         parts_constructed w1 = Suc (parts_constructed w) \<and>
         stdout w1 = stdout w @
           (case item_field component ''footprint'' of
              Inl e \<Rightarrow> [Does_not_have_a_footprint_defined (inst\<lparr>defined_at := None\<rparr>)]
            | Inr footprint \<Rightarrow> [])"
  using assms
  by (auto simp: populate_part_def Part_def split: sum.splits option.splits if_splits)

lemma populate_parts_constructed:
  "populate_parts filename pcs cs parts w = (Inr parts', w') \<Longrightarrow>
   parts_constructed w' = parts_constructed w + length cs"
proof (induction cs arbitrary: parts w)
  case Nil
  then show ?case by simp
next
  case (Cons c cs)
  then show ?case
    by (fastforce split: prod.splits sum.splits dest: populate_part_Inr)
qed

lemma populate_parts_other_refdes:
  "\<not> list_ex (same_refdes r) cs \<Longrightarrow>
   populate_parts filename pcs cs parts w = (Inr parts', w') \<Longrightarrow>
   dict_get parts' r = dict_get parts r"
proof (induction cs arbitrary: parts w)
  case Nil
  then show ?case by simp
next
  case (Cons c cs)
  from Cons.prems(2) obtain inst w1 where
    step: "populate_part filename pcs c w = (Inr inst, w1)" and
    rest: "populate_parts filename pcs cs (dict_set parts (refdes inst) inst) w1 = (Inr parts', w')"
    by (auto split: prod.splits sum.splits)
  from step have "item_field c ''ref'' = Inr (refdes inst)" by (simp add: populate_part_Inr)
  with Cons.prems(1) have "\<not> py_eq (refdes inst) r" by (simp add: same_refdes_def)
  moreover from Cons.prems(1) rest
  have "dict_get parts' r = dict_get (dict_set parts (refdes inst) inst) r"
    by (intro Cons.IH) simp_all
  ultimately show ?case by (simp add: dict_get_set)
qed

lemma populate_parts_same_refdes:
  "list_ex (same_refdes r) cs \<Longrightarrow>
   populate_parts filename pcs cs parts w = (Inr parts', w') \<Longrightarrow>
   \<exists>inst. dict_get parts' r = Some inst \<and> parts_constructed w \<le> uid inst \<and>
          uid inst < parts_constructed w'"
proof (induction cs arbitrary: parts w)
  case Nil
  then show ?case by simp
next
  case (Cons c cs)
  from Cons.prems(2) obtain inst w1 where
    step: "populate_part filename pcs c w = (Inr inst, w1)" and
    rest: "populate_parts filename pcs cs (dict_set parts (refdes inst) inst) w1 = (Inr parts', w')"
    by (auto split: prod.splits sum.splits)
  from step have r: "item_field c ''ref'' = Inr (refdes inst)" and u: "uid inst = parts_constructed w"
    and c: "parts_constructed w1 = Suc (parts_constructed w)"
    by (simp_all add: populate_part_Inr)
  from rest have n: "parts_constructed w' = parts_constructed w1 + length cs"
    by (rule populate_parts_constructed)
  show ?case
  proof (cases "list_ex (same_refdes r) cs")
    case True
    from Cons.IH [OF True rest] c show ?thesis by auto
  next
    case False
    with Cons.prems(1) have "same_refdes r c" by simp
    with r have "py_eq (refdes inst) r" by (simp add: same_refdes_def)
    moreover from False rest
    have "dict_get parts' r = dict_get (dict_set parts (refdes inst) inst) r"
      by (rule populate_parts_other_refdes)
    ultimately show ?thesis using u c n by (simp add: dict_get_set)
  qed
qed

lemma same_refdes_atom: "same_refdes r c \<Longrightarrow> py_eq r r"
  by (cases "item_field c ''ref''") (auto simp: same_refdes_def py_eq_iff)

lemma read_kicad_netlist_populated:
  assumes "getitem netlist_contents ''libparts'' = Inr libparts"
    and "map_result read_kicad_netlist_partcls (tl libparts) = Inr part_classes"
    and "getitem netlist_contents ''components'' = Inr components"
  shows "read_kicad_netlist filename netlist_contents w =
     (case populate_parts filename part_classes (tl components) [] w of
        (Inl e, w1) \<Rightarrow> (Inl e, w1)
      | (Inr parts, w1) \<Rightarrow>
     (case getitem netlist_contents ''nets'' of
        Inl e \<Rightarrow> (Inl e, w1)
      | Inr net_sexps \<Rightarrow>
     (case build_nets filename parts (tl net_sexps) w1 of
        (Inl e, w2) \<Rightarrow> (Inl e, w2)
      | (Inr u, w2) \<Rightarrow> (Inr (parts, netlist_contents), w2))))"
  using assms by (simp add: read_kicad_netlist_def)

subsection \<open>The loop over the nets\<close>

lemma connect_node_cases:
  assumes "connect_node parts n node = Inr n1"
  shows "n1 = n \<or> (\<exists>p. p \<notin> set (connections n) \<and> n1 = connect n p)"
  using assms
  by (auto simp: connect_node_def and_then_def split: sum.splits option.splits if_splits)

lemma connect_node_distinct:
  assumes "connect_node parts n node = Inr n1" "distinct (connections n)"
  shows "distinct (connections n1)"
  using connect_node_cases [OF assms(1)] assms(2) by (auto simp: connect_def)


lemma connect_nodes_distinct:
  "distinct (connections n) \<Longrightarrow> distinct (connections (snd (connect_nodes parts n nodes)))"
  by (induction nodes arbitrary: n) (auto split: sum.splits dest: connect_node_distinct)



lemma connect_nodes_append:
  "connect_nodes parts n (xs @ ys) =
     (case connect_nodes parts n xs of
        (Some e, n1) \<Rightarrow> (Some e, n1)
      | (None, n1) \<Rightarrow> connect_nodes parts n1 ys)"
  by (induction xs arbitrary: n) (auto split: sum.splits)

lemma connect_nodes_result_distinct:
  assumes "connect_nodes parts (Net name\<lparr>net_defined_at := Some filename\<rparr>) nodes = (r, n)"
  shows "distinct (connections n)"
  using connect_nodes_distinct [of "Net name\<lparr>net_defined_at := Some filename\<rparr>" parts nodes] assms
  by (simp add: Net_def)

lemma build_net_nets:
  "\<exists>new. nets (snd (build_net filename parts net_sexp w)) = nets w @ new \<and>
         list_all (\<lambda>n. distinct (connections n)) new"
  by (auto simp: build_net_def connect_nodes_result_distinct
           split: sexp.splits sum.splits bool.splits prod.splits option.splits)

lemma build_nets_nets:
  "\<exists>new. nets (snd (build_nets filename parts net_sexps w)) = nets w @ new \<and>
         list_all (\<lambda>n. distinct (connections n)) new"
proof (induction net_sexps arbitrary: w)
  case Nil
  then show ?case by simp
next
  case (Cons e es)
  obtain r w1 where s: "build_net filename parts e w = (r, w1)" by (cases "build_net filename parts e w")
  from build_net_nets [of filename parts e w] s obtain new1 where
    n1: "nets w1 = nets w @ new1" "list_all (\<lambda>n. distinct (connections n)) new1" by auto
  show ?case
  proof (cases r)
    case (Inl err)
    with s n1 show ?thesis by simp
  next
    case (Inr u)
    from Cons [of w1] obtain new2 where
      "nets (snd (build_nets filename parts es w1)) = nets w1 @ new2"
      "list_all (\<lambda>n. distinct (connections n)) new2" by auto
    with Inr s n1 show ?thesis by simp
  qed
qed

lemma build_nets_append:
  "build_nets filename parts (xs @ ys) w =
     (case build_nets filename parts xs w of
        (Inl e, w1) \<Rightarrow> (Inl e, w1)
      | (Inr u, w1) \<Rightarrow> build_nets filename parts ys w1)"
  by (induction xs arbitrary: w) (auto split: prod.splits sum.splits)


lemma build_net_constructed:
  assumes "field l ''name'' = Inr name"
    and "find_all l ''node'' = Inr nodes"
    and "goes_nowhere nodes name = Inr False"
  shows "build_net filename parts (List l) w =
     (case connect_nodes parts ((Net name)\<lparr>net_defined_at := Some filename\<rparr>) nodes of
        (None, n) \<Rightarrow> (Inr (), w\<lparr>nets := nets w @ [n]\<rparr>)
      | (Some e, n) \<Rightarrow> (Inl e, w\<lparr>nets := nets w @ [n]\<rparr>))"
  using assms by (simp add: build_net_def)

lemma populate_part_nets: "nets (snd (populate_part filename pcs c w)) = nets w"
  by (simp add: populate_part_def Part_def split: sum.splits option.splits prod.splits)

lemma populate_parts_nets: "nets (snd (populate_parts filename pcs cs parts w)) = nets w"
proof (induction cs arbitrary: parts w)
  case Nil
  then show ?case by simp
next
  case (Cons c cs)
  obtain r w1 where s: "populate_part filename pcs c w = (r, w1)"
    by (cases "populate_part filename pcs c w")
  with populate_part_nets [of filename pcs c w] have "nets w1 = nets w" by simp
  with s Cons [of _ w1] show ?case by (cases r) simp_all
qed

lemma read_kicad_netlist_nets:
  "\<exists>new. nets (snd (read_kicad_netlist filename netlist_contents w)) = nets w @ new \<and>
         list_all (\<lambda>n. distinct (connections n)) new"
proof -
  have a: "\<exists>new. nets w = nets w @ new \<and> list_all (\<lambda>n. distinct (connections n)) new"
    by simp
  show ?thesis
  proof (cases "getitem netlist_contents ''libparts''")
    case (Inl e)
    with a show ?thesis by (simp add: read_kicad_netlist_def)
  next
    case libparts: (Inr libparts)
    show ?thesis
    proof (cases "map_result read_kicad_netlist_partcls (tl libparts)")
      case (Inl e)
      with libparts a show ?thesis by (simp add: read_kicad_netlist_def)
    next
      case pcs: (Inr part_classes)
      show ?thesis
      proof (cases "getitem netlist_contents ''components''")
        case (Inl e)
        with libparts pcs a show ?thesis by (simp add: read_kicad_netlist_def)
      next
        case comps: (Inr components)
        obtain r w1 where p: "populate_parts filename part_classes (tl components) [] w = (r, w1)"
          by (cases "populate_parts filename part_classes (tl components) [] w")
        with populate_parts_nets [of filename part_classes "tl components" "[]" w]
        have w1: "nets w1 = nets w" by simp
        show ?thesis
        proof (cases r)
          case (Inl e)
          with libparts pcs comps p w1 show ?thesis
            by (simp add: read_kicad_netlist_populated)
        next
          case parts: (Inr parts)
          show ?thesis
          proof (cases "getitem netlist_contents ''nets''")
            case (Inl e)
            with libparts pcs comps p parts w1 show ?thesis
              by (simp add: read_kicad_netlist_populated)
          next
            case (Inr net_sexps)
            obtain r2 w2 where b: "build_nets filename parts (tl net_sexps) w1 = (r2, w2)"
              by (cases "build_nets filename parts (tl net_sexps) w1")
            with build_nets_nets [of filename parts "tl net_sexps" w1] w1
            have "\<exists>new. nets w2 = nets w @ new \<and> list_all (\<lambda>n. distinct (connections n)) new"
              by simp
            with libparts pcs comps p parts Inr b show ?thesis
              by (cases r2) (simp_all add: read_kicad_netlist_populated)
          qed
        qed
      qed
    qed
  qed
qed

lemma find_pin_None:
  "(find_pin pin_number ps = None) = (\<not> list_ex (\<lambda>p. number_in pin_number (numbers p)) ps)"
  by (induction ps) auto

lemma connect_node_pin_not_found:
  assumes "field node ''pin'' = Inr pin_number"
    and "field node ''ref'' = Inr r"
    and "dict_get parts r = Some part"
    and "\<not> list_ex (\<lambda>p. number_in pin_number (numbers p)) (pins part)"
  shows "connect_node parts n node = Inl (KeyError_pin_not_found pin_number (refdes part))"
proof -
  from assms(4) have "find_pin pin_number (pins part) = None"
    by (simp add: find_pin_None)
  with assms(1-3) show ?thesis
    by (simp add: connect_node_def and_then_def)
qed

subsection \<open>The load from a component on\<close>

lemma dict_set_keeps:
  "(k0, v0) \<in> set d \<Longrightarrow> \<not> py_eq k0 k \<Longrightarrow> (k0, v0) \<in> set (dict_set d k v)"
  by (induction d) (auto simp: py_eq_iff)

lemma populate_parts_keeps:
  "populate_parts filename pcs cs parts w = (Inr parts', w') \<Longrightarrow>
   \<not> list_ex (same_refdes r) cs \<Longrightarrow> (r, inst) \<in> set parts \<Longrightarrow> (r, inst) \<in> set parts'"
proof (induction cs arbitrary: parts w)
  case Nil
  then show ?case by simp
next
  case (Cons c cs)
  from Cons.prems(1) obtain inst1 w1 where
    step: "populate_part filename pcs c w = (Inr inst1, w1)" and
    rest: "populate_parts filename pcs cs (dict_set parts (refdes inst1) inst1) w1 = (Inr parts', w')"
    by (auto split: prod.splits sum.splits)
  from step have "item_field c ''ref'' = Inr (refdes inst1)" by (simp add: populate_part_Inr)
  with Cons.prems(2) have "\<not> py_eq (refdes inst1) r" by (simp add: same_refdes_def)
  then have "\<not> py_eq r (refdes inst1)" by (auto simp: py_eq_iff)
  with Cons.prems(3) have "(r, inst) \<in> set (dict_set parts (refdes inst1) inst1)"
    by (rule dict_set_keeps)
  with Cons.IH [OF rest] Cons.prems(2) show ?case by simp
qed

lemma returned_mapping_holds:
  assumes "populate_parts filename pcs after (dict_set parts1 r inst) w2 = (Inr parts, w3)"
    and "\<not> list_ex (same_refdes r) after"
  shows "(r, inst) \<in> set parts \<and> (py_eq r r \<longrightarrow> dict_get parts r = Some inst)"
proof
  from assms show "(r, inst) \<in> set parts"
    by (rule populate_parts_keeps) (rule dict_set_mem)
next
  from populate_parts_other_refdes [OF assms(2,1)]
  show "py_eq r r \<longrightarrow> dict_get parts r = Some inst"
    by (simp add: dict_get_set)
qed

lemma populate_part_stdout:
  "\<exists>lines. stdout (snd (populate_part filename pcs c w)) = stdout w @ lines"
  by (simp add: populate_part_def Part_def split: sum.splits option.splits prod.splits)

lemma populate_parts_stdout:
  "\<exists>lines. stdout (snd (populate_parts filename pcs cs parts w)) = stdout w @ lines"
proof (induction cs arbitrary: parts w)
  case Nil
  then show ?case by simp
next
  case (Cons c cs)
  obtain r w1 where s: "populate_part filename pcs c w = (r, w1)"
    by (cases "populate_part filename pcs c w")
  with populate_part_stdout [of filename pcs c w] obtain lines1 where
    l1: "stdout w1 = stdout w @ lines1" by auto
  show ?case
  proof (cases r)
    case (Inl e)
    with s l1 show ?thesis by simp
  next
    case (Inr inst)
    from Cons [of "dict_set parts (refdes inst) inst" w1] obtain lines2 where
      "stdout (snd (populate_parts filename pcs cs (dict_set parts (refdes inst) inst) w1)) =
         stdout w1 @ lines2" by auto
    with Inr s l1 show ?thesis by simp
  qed
qed

lemma build_net_stdout: "stdout (snd (build_net filename parts net_sexp w)) = stdout w"
  by (simp add: build_net_def split: sexp.splits sum.splits bool.splits prod.splits option.splits)

lemma build_nets_stdout: "stdout (snd (build_nets filename parts net_sexps w)) = stdout w"
proof (induction net_sexps arbitrary: w)
  case Nil
  then show ?case by simp
next
  case (Cons e es)
  obtain r w1 where s: "build_net filename parts e w = (r, w1)"
    by (cases "build_net filename parts e w")
  with build_net_stdout [of filename parts e w] have "stdout w1 = stdout w" by simp
  with s Cons [of w1] show ?case by (cases r) simp_all
qed

lemma rest_of_load_stdout:
  "\<exists>lines. stdout (snd
     (case populate_parts filename pcs cs parts0 w0 of
        (Inl e, w1) \<Rightarrow> (Inl e, w1)
      | (Inr parts, w1) \<Rightarrow>
     (case getitem netlist_contents ''nets'' of
        Inl e \<Rightarrow> (Inl e, w1)
      | Inr net_sexps \<Rightarrow>
     (case build_nets filename parts (tl net_sexps) w1 of
        (Inl e, w2) \<Rightarrow> (Inl e, w2)
      | (Inr u, w2) \<Rightarrow> (Inr (parts, netlist_contents), w2))))) = stdout w0 @ lines"
proof -
  obtain r w1 where p: "populate_parts filename pcs cs parts0 w0 = (r, w1)"
    by (cases "populate_parts filename pcs cs parts0 w0")
  with populate_parts_stdout [of filename pcs cs parts0 w0] obtain lines where
    l: "stdout w1 = stdout w0 @ lines" by auto
  show ?thesis
  proof (cases r)
    case (Inl e)
    with p l show ?thesis by simp
  next
    case (Inr parts)
    show ?thesis
    proof (cases "getitem netlist_contents ''nets''")
      case (Inl e)
      with p Inr l show ?thesis by simp
    next
      case nets: (Inr net_sexps)
      obtain r2 w2 where b: "build_nets filename parts (tl net_sexps) w1 = (r2, w2)"
        by (cases "build_nets filename parts (tl net_sexps) w1")
      with build_nets_stdout [of filename parts "tl net_sexps" w1] l
      have "stdout w2 = stdout w0 @ lines" by simp
      with p Inr nets b show ?thesis by (cases r2) simp_all
    qed
  qed
qed

lemma rest_of_load_returns:
  assumes "(case populate_parts filename pcs cs parts0 w0 of
        (Inl e, w1) \<Rightarrow> (Inl e, w1)
      | (Inr parts, w1) \<Rightarrow>
     (case getitem netlist_contents ''nets'' of
        Inl e \<Rightarrow> (Inl e, w1)
      | Inr net_sexps \<Rightarrow>
     (case build_nets filename parts (tl net_sexps) w1 of
        (Inl e, w2) \<Rightarrow> (Inl e, w2)
      | (Inr u, w2) \<Rightarrow> (Inr (parts, netlist_contents), w2)))) = (Inr (parts', tree), w')"
  shows "\<exists>w3. populate_parts filename pcs cs parts0 w0 = (Inr parts', w3)"
  using assms by (auto split: prod.splits sum.splits)

lemma load_after_component:
  assumes "getitem netlist_contents ''libparts'' = Inr libparts"
    and "map_result read_kicad_netlist_partcls (tl libparts) = Inr part_classes"
    and "getitem netlist_contents ''components'' = Inr components"
    and "tl components = before @ component # after"
    and "populate_parts filename part_classes before [] w = (Inr parts1, w1)"
    and "populate_part filename part_classes component w1 = (Inr inst, w2)"
  shows "populate_parts filename part_classes (before @ [component]) [] w =
           (Inr (dict_set parts1 (refdes inst) inst), w2)"
    and "read_kicad_netlist filename netlist_contents w =
     (case populate_parts filename part_classes after (dict_set parts1 (refdes inst) inst) w2 of
        (Inl e, w3) \<Rightarrow> (Inl e, w3)
      | (Inr parts, w3) \<Rightarrow>
     (case getitem netlist_contents ''nets'' of
        Inl e \<Rightarrow> (Inl e, w3)
      | Inr net_sexps \<Rightarrow>
     (case build_nets filename parts (tl net_sexps) w3 of
        (Inl e, w4) \<Rightarrow> (Inl e, w4)
      | (Inr u, w4) \<Rightarrow> (Inr (parts, netlist_contents), w4))))"
proof -
  from assms(5,6) show "populate_parts filename part_classes (before @ [component]) [] w =
           (Inr (dict_set parts1 (refdes inst) inst), w2)"
    by (simp add: populate_parts_append)
  from assms(4-6) have "populate_parts filename part_classes (tl components) [] w =
      populate_parts filename part_classes after (dict_set parts1 (refdes inst) inst) w2"
    by (simp add: populate_parts_append)
  with read_kicad_netlist_populated [OF assms(1-3), of filename w]
  show "read_kicad_netlist filename netlist_contents w =
     (case populate_parts filename part_classes after (dict_set parts1 (refdes inst) inst) w2 of
        (Inl e, w3) \<Rightarrow> (Inl e, w3)
      | (Inr parts, w3) \<Rightarrow>
     (case getitem netlist_contents ''nets'' of
        Inl e \<Rightarrow> (Inl e, w3)
      | Inr net_sexps \<Rightarrow>
     (case build_nets filename parts (tl net_sexps) w3 of
        (Inl e, w4) \<Rightarrow> (Inl e, w4)
      | (Inr u, w4) \<Rightarrow> (Inr (parts, netlist_contents), w4))))"
    by simp
qed

subsection \<open>The example netlist, evaluated\<close>

lemmas lookups = getitem_def field_def item_field_def and_then_def tagged_def

lemma example_class_read: "read_kicad_netlist_partcls example_libpart = Inr example_class"
  by (simp add: read_kicad_netlist_partcls_def example_libpart_def example_class_def
        example_pins_def lookups read_fields_def read_pin_def make_pin_def Pin_def pop_def
        KicadPart_REFDES_PREFIX_def is_delimiter_def whitespace_def)

lemma example_libsource_fields:
  "subscript (example_component r v) ''libsource'' = Inr example_libsource"
  "field example_libsource ''lib'' = Inr (Str ''Device'')"
  "field example_libsource ''part'' = Inr (Str ''R'')"
  "item_field (example_component r v) ''ref'' = Inr (Str r)"
  "item_field (example_component r v) ''value'' = Inr (Str v)"
  "item_field (example_component r v) ''footprint'' = Inr (Str ''R_0603'')"
  by (simp_all add: example_component_def example_libsource_def lookups)

lemma example_class_matches: "matches (Str ''Device'') (Str ''R'') example_class"
  by (simp add: matches_def example_class_def)

lemma example_populate_part:
  "populate_part ''example.net'' [example_class] (example_component r v) w =
     (Inr (example_instance (parts_constructed w) r v),
      w\<lparr>parts_constructed := Suc (parts_constructed w)\<rparr>)"
  using example_class_matches
  by (simp add: populate_part_def example_libsource_fields Part_def example_instance_def
        matches_def) (simp add: example_class_def)

lemma example_instance_fields:
  "uid (example_instance i r v) = i" "pins (example_instance i r v) = example_pins"
  "refdes (example_instance i r v) = Str r"
  by (simp_all add: example_instance_def)

lemma example_netlist_sections:
  "getitem (example_netlist cs ns) ''libparts'' = Inr [Symbol ''libparts'', example_libpart]"
  "getitem (example_netlist cs ns) ''components'' = Inr (Symbol ''components'' # cs)"
  "getitem (example_netlist cs ns) ''nets'' = Inr (Symbol ''nets'' # ns)"
  by (simp_all add: example_netlist_def getitem_def)

lemma example_catalog:
  "map_result read_kicad_netlist_partcls (tl [Symbol ''libparts'', example_libpart]) =
     Inr [example_class]"
  by (simp add: example_class_read)

lemma example_populate_parts:
  "populate_parts ''example.net'' [example_class]
     [example_component ''R1'' ''10k'', example_component ''R2'' ''22k''] [] example_world =
   (Inr example_parts, example_world\<lparr>parts_constructed := 2\<rparr>)"
  by (simp add: example_populate_part example_parts_def example_instance_def example_world_def)

lemma example_populate_first:
  "populate_parts ''example.net'' [example_class] [example_component ''R1'' ''10k''] []
     example_world =
   (Inr [(Str ''R1'', example_instance 0 ''R1'' ''10k'')],
    example_world\<lparr>parts_constructed := 1\<rparr>)"
  by (simp add: example_populate_part example_instance_fields) (simp add: example_world_def)

lemma example_populate_last:
  "populate_parts ''example.net'' [example_class] [example_component ''R2'' ''1k''] parts w =
   (Inr (dict_set parts (Str ''R2'') (example_instance (parts_constructed w) ''R2'' ''1k'')),
    w\<lparr>parts_constructed := Suc (parts_constructed w)\<rparr>)"
  by (simp add: example_populate_part example_instance_fields)

lemma example_node_fields:
  "field (example_node r p) ''pin'' = Inr (Str p)"
  "field (example_node r p) ''ref'' = Inr (Str r)"
  by (simp_all add: example_node_def lookups)

lemma example_pin_numbers:
  "find_pin (Str ''1'') example_pins = Some 0"
  "find_pin (Str ''3'') example_pins = Some 0"
  "find_pin (Str ''2'') example_pins = Some 1"
  "find_pin (Str ''9'') example_pins = None"
  by (simp_all add: example_pins_def)

lemma example_parts_lookup:
  "dict_get example_parts (Str ''R1'') = Some (example_instance 0 ''R1'' ''10k'')"
  "dict_get example_parts (Str ''R2'') = Some (example_instance 1 ''R2'' ''22k'')"
  by (simp_all add: example_parts_def)

lemma example_net_nodes:
  "find_all example_single_net ''node'' = Inr [example_node ''R1'' ''2'']"
  "find_all example_ganged_net ''node'' =
     Inr [example_node ''R1'' ''1'', example_node ''R1'' ''3'', example_node ''R2'' ''2'']"
  "find_all example_bad_net ''node'' = Inr [example_node ''R2'' ''1'', example_node ''R1'' ''9'']"
  by (simp_all add: example_single_net_def example_ganged_net_def example_bad_net_def
        example_node_def tagged_def)

lemma example_net_names:
  "field example_single_net ''name'' = Inr (Str ''Net-(R1-Pad2)'')"
  "field example_ganged_net ''name'' = Inr (Str ''Net-(R1-Pad1)'')"
  "field example_bad_net ''name'' = Inr (Str ''GND'')"
  by (simp_all add: example_single_net_def example_ganged_net_def example_bad_net_def
        example_node_def lookups)

lemma example_single_net_filtered:
  "build_net ''example.net'' example_parts (List example_single_net) w = (Inr (), w)"
  by (simp add: build_net_def example_net_nodes example_net_names goes_nowhere_def)

lemma example_connect_nodes:
  "connect_nodes example_parts ((Net (Str ''Net-(R1-Pad1)''))\<lparr>net_defined_at := Some ''example.net''\<rparr>)
     [example_node ''R1'' ''1'', example_node ''R1'' ''3'', example_node ''R2'' ''2''] =
   (None, \<lparr>net_name = Str ''Net-(R1-Pad1)'', net_defined_at = Some ''example.net'',
           connections = [(0, 0), (1, 1)]\<rparr>)"
  by (simp add: connect_node_def and_then_def example_node_fields example_pin_numbers
        example_parts_lookup example_instance_fields Net_def connect_def)

lemma example_ganged_net_built:
  "build_net ''example.net'' example_parts (List example_ganged_net) w =
     (Inr (), w\<lparr>nets := nets w @
        [\<lparr>net_name = Str ''Net-(R1-Pad1)'', net_defined_at = Some ''example.net'',
          connections = [(0, 0), (1, 1)]\<rparr>]\<rparr>)"
  by (simp add: build_net_def example_net_nodes example_net_names goes_nowhere_def
        example_connect_nodes del: connect_nodes.simps)

lemma example_load:
  "read_kicad_netlist ''example.net''
     (example_netlist [example_component ''R1'' ''10k'', example_component ''R2'' ''22k'']
        [List example_single_net, List example_ganged_net]) example_world =
   (Inr (example_parts,
         example_netlist [example_component ''R1'' ''10k'', example_component ''R2'' ''22k'']
           [List example_single_net, List example_ganged_net]),
    example_world\<lparr>parts_constructed := 2,
      nets := nets example_world @
        [\<lparr>net_name = Str ''Net-(R1-Pad1)'', net_defined_at = Some ''example.net'',
          connections = [(0, 0), (1, 1)]\<rparr>]\<rparr>)"
proof -
  have "map_result read_kicad_netlist_partcls (tl [Symbol ''libparts'', example_libpart]) =
          Inr [example_class]"
    by (simp add: example_class_read)
  from read_kicad_netlist_populated [OF example_netlist_sections(1) this example_netlist_sections(2)]
  show ?thesis
    by (simp add: example_populate_parts example_netlist_sections example_single_net_filtered
          example_ganged_net_built del: populate_parts.simps)
qed

subsection \<open>Template resolution\<close>

text \<open>The loop body on a component that exactly one class matches.\<close>

lemma populate_part_single_match:
  assumes "subscript component ''libsource'' = Inr libsource"
    and "field libsource ''lib'' = Inr lib"
    and "field libsource ''part'' = Inr part_name"
    and "filter (matches lib part_name) part_classes = [part_class]"
    and "item_field component ''ref'' = Inr r"
    and "item_field component ''value'' = Inr v"
    and "item_field component ''footprint'' \<noteq> Inl IndexError"
  shows "\<exists>inst w1.
     populate_part filename part_classes component w = (Inr inst, w1) \<and>
     refdes inst = r \<and> pins inst = PINS part_class \<and> part_value inst = v \<and>
     cls inst = part_class \<and>
     populate_parts filename part_classes (component # components) parts w =
       populate_parts filename part_classes components (dict_set parts r inst) w1 \<and>
     (r, inst) \<in> set (dict_set parts r inst)"
proof -
  from assms(4) have f: "find_part_class part_classes lib part_name = Some part_class"
    by (simp add: find_part_class_filter)
  note p = populate_part_resolved [OF assms(1-3) f assms(5,6), of filename w]
  show ?thesis
  proof (cases "item_field component ''footprint''")
    case (Inl e)
    with assms(1,7) have "is_KeyError e" using item_field_errors by blast
    with Inl p show ?thesis by (auto simp: Part_def dict_set_mem)
  next
    case (Inr footprint)
    with p show ?thesis by (auto simp: Part_def dict_set_mem)
  qed
qed

text \<open>
  Claim C1. Take a load whose catalog is built and in which the components before a component
  are populated without an exception, and let the component have a \<^verbatim>\<open>libsource\<close> with a library
  and a part name, a reference designator and a value, and a footprint entry, if it has one,
  that holds a value. When exactly one class of the catalog matches the library and the part
  name, the load constructs an instance whose pins are the pins of that class, in their order,
  whose value is the value field of the component and whose reference designator is the
  component's; it stores the instance in the mapping under the reference designator and goes on
  from there with the later components and the nets. When the load returns, the mapping it
  returns holds this instance under the reference designator, unless a later component has the
  same reference designator.
\<close>

theorem template_resolution:
  assumes "getitem netlist_contents ''libparts'' = Inr libparts"
    and "map_result read_kicad_netlist_partcls (tl libparts) = Inr part_classes"
    and "getitem netlist_contents ''components'' = Inr components"
    and "tl components = before @ component # after"
    and "populate_parts filename part_classes before [] w = (Inr parts1, w1)"
    and "subscript component ''libsource'' = Inr libsource"
    and "field libsource ''lib'' = Inr lib"
    and "field libsource ''part'' = Inr part_name"
    and "filter (matches lib part_name) part_classes = [part_class]"
    and "item_field component ''ref'' = Inr r"
    and "item_field component ''value'' = Inr v"
    and "item_field component ''footprint'' \<noteq> Inl IndexError"
  shows "\<exists>inst w2.
     populate_part filename part_classes component w1 = (Inr inst, w2) \<and>
     refdes inst = r \<and> pins inst = PINS part_class \<and> part_value inst = v \<and>
     cls inst = part_class \<and>
     populate_parts filename part_classes (before @ [component]) [] w =
       (Inr (dict_set parts1 r inst), w2) \<and>
     read_kicad_netlist filename netlist_contents w =
       (case populate_parts filename part_classes after (dict_set parts1 r inst) w2 of
          (Inl e, w3) \<Rightarrow> (Inl e, w3)
        | (Inr parts, w3) \<Rightarrow>
       (case getitem netlist_contents ''nets'' of
          Inl e \<Rightarrow> (Inl e, w3)
        | Inr net_sexps \<Rightarrow>
       (case build_nets filename parts (tl net_sexps) w3 of
          (Inl e, w4) \<Rightarrow> (Inl e, w4)
        | (Inr u, w4) \<Rightarrow> (Inr (parts, netlist_contents), w4)))) \<and>
     (\<forall>parts tree w'.
        read_kicad_netlist filename netlist_contents w = (Inr (parts, tree), w') \<longrightarrow>
        \<not> list_ex (same_refdes r) after \<longrightarrow>
        (r, inst) \<in> set parts \<and> (py_eq r r \<longrightarrow> dict_get parts r = Some inst))"
proof -
  from populate_part_single_match [OF assms(6-12), where w = w1]
  obtain inst w2 where
    step: "populate_part filename part_classes component w1 = (Inr inst, w2)" and
    inst: "refdes inst = r" "pins inst = PINS part_class" "part_value inst = v"
      "cls inst = part_class"
    by blast
  note l = load_after_component [OF assms(1-5) step, unfolded inst(1)]
  have "\<forall>parts tree w'.
        read_kicad_netlist filename netlist_contents w = (Inr (parts, tree), w') \<longrightarrow>
        \<not> list_ex (same_refdes r) after \<longrightarrow>
        (r, inst) \<in> set parts \<and> (py_eq r r \<longrightarrow> dict_get parts r = Some inst)"
  proof (intro allI impI)
    fix parts tree w'
    assume ret: "read_kicad_netlist filename netlist_contents w = (Inr (parts, tree), w')"
      and a: "\<not> list_ex (same_refdes r) after"
    from rest_of_load_returns [OF trans [OF l(2) [symmetric] ret]] obtain w3 where
      "populate_parts filename part_classes after (dict_set parts1 r inst) w2 = (Inr parts, w3)"
      by blast
    from returned_mapping_holds [OF this a]
    show "(r, inst) \<in> set parts \<and> (py_eq r r \<longrightarrow> dict_get parts r = Some inst)" .
  qed
  then show ?thesis
    by (intro exI [where x = inst] exI [where x = w2] conjI step inst l)
qed

theorem template_resolution_witness:
  "getitem (example_netlist [example_component ''R1'' ''10k'', example_component ''R2'' ''22k''] [])
     ''libparts'' = Inr [Symbol ''libparts'', example_libpart] \<and>
   map_result read_kicad_netlist_partcls (tl [Symbol ''libparts'', example_libpart]) =
     Inr [example_class] \<and>
   getitem (example_netlist [example_component ''R1'' ''10k'', example_component ''R2'' ''22k''] [])
     ''components'' =
     Inr [Symbol ''components'', example_component ''R1'' ''10k'', example_component ''R2'' ''22k''] \<and>
   tl [Symbol ''components'', example_component ''R1'' ''10k'', example_component ''R2'' ''22k''] =
     [example_component ''R1'' ''10k''] @ example_component ''R2'' ''22k'' # [] \<and>
   populate_parts ''example.net'' [example_class] [example_component ''R1'' ''10k''] []
     example_world =
     (Inr [(Str ''R1'', example_instance 0 ''R1'' ''10k'')],
      example_world\<lparr>parts_constructed := 1\<rparr>) \<and>
   subscript (example_component ''R2'' ''22k'') ''libsource'' = Inr example_libsource \<and>
   field example_libsource ''lib'' = Inr (Str ''Device'') \<and>
   field example_libsource ''part'' = Inr (Str ''R'') \<and>
   filter (matches (Str ''Device'') (Str ''R'')) [example_class] = [example_class] \<and>
   item_field (example_component ''R2'' ''22k'') ''ref'' = Inr (Str ''R2'') \<and>
   item_field (example_component ''R2'' ''22k'') ''value'' = Inr (Str ''22k'') \<and>
   item_field (example_component ''R2'' ''22k'') ''footprint'' \<noteq> Inl IndexError \<and>
   \<not> list_ex (same_refdes (Str ''R2'')) [] \<and>
   py_eq (Str ''R2'') (Str ''R2'') \<and>
   (\<exists>inst w2.
      populate_part ''example.net'' [example_class] (example_component ''R2'' ''22k'')
        (example_world\<lparr>parts_constructed := 1\<rparr>) = (Inr inst, w2) \<and>
      refdes inst = Str ''R2'' \<and> pins inst = PINS example_class \<and>
      part_value inst = Str ''22k'' \<and> cls inst = example_class \<and>
      read_kicad_netlist ''example.net''
        (example_netlist [example_component ''R1'' ''10k'', example_component ''R2'' ''22k''] [])
        example_world =
        (Inr ([(Str ''R1'', example_instance 0 ''R1'' ''10k''), (Str ''R2'', inst)],
              example_netlist [example_component ''R1'' ''10k'', example_component ''R2'' ''22k'']
                []), w2) \<and>
      dict_get [(Str ''R1'', example_instance 0 ''R1'' ''10k''), (Str ''R2'', inst)] (Str ''R2'') =
        Some inst)"
proof -
  have h4: "tl [Symbol ''components'', example_component ''R1'' ''10k'',
               example_component ''R2'' ''22k''] =
     [example_component ''R1'' ''10k''] @ example_component ''R2'' ''22k'' # []"
    by simp
  have h9: "filter (matches (Str ''Device'') (Str ''R'')) [example_class] = [example_class]"
    by (simp add: matches_def example_class_def)
  have h12: "item_field (example_component ''R2'' ''22k'') ''footprint'' \<noteq> Inl IndexError"
    by (simp add: example_libsource_fields)
  have a: "\<not> list_ex (same_refdes (Str ''R2'')) []" by simp
  have q: "py_eq (Str ''R2'') (Str ''R2'')" by simp
  note s = example_netlist_sections
  note f = example_libsource_fields
  from template_resolution [OF s(1) example_catalog s(2) h4 example_populate_first f(1-3) h9
      f(4,5) h12]
  obtain inst w2 where
    step: "populate_part ''example.net'' [example_class] (example_component ''R2'' ''22k'')
        (example_world\<lparr>parts_constructed := 1\<rparr>) = (Inr inst, w2)" and
    inst: "refdes inst = Str ''R2''" "pins inst = PINS example_class"
      "part_value inst = Str ''22k''" "cls inst = example_class" and
    load: "read_kicad_netlist ''example.net''
        (example_netlist [example_component ''R1'' ''10k'', example_component ''R2'' ''22k''] [])
        example_world =
       (case populate_parts ''example.net'' [example_class] []
          (dict_set [(Str ''R1'', example_instance 0 ''R1'' ''10k'')] (Str ''R2'') inst) w2 of
          (Inl e, w3) \<Rightarrow> (Inl e, w3)
        | (Inr parts, w3) \<Rightarrow>
       (case getitem (example_netlist [example_component ''R1'' ''10k'',
                         example_component ''R2'' ''22k''] []) ''nets'' of
          Inl e \<Rightarrow> (Inl e, w3)
        | Inr net_sexps \<Rightarrow>
       (case build_nets ''example.net'' parts (tl net_sexps) w3 of
          (Inl e, w4) \<Rightarrow> (Inl e, w4)
        | (Inr u, w4) \<Rightarrow>
            (Inr (parts, example_netlist [example_component ''R1'' ''10k'',
                           example_component ''R2'' ''22k''] []), w4))))" and
    final: "\<forall>parts tree w'.
        read_kicad_netlist ''example.net''
          (example_netlist [example_component ''R1'' ''10k'', example_component ''R2'' ''22k''] [])
          example_world = (Inr (parts, tree), w') \<longrightarrow>
        \<not> list_ex (same_refdes (Str ''R2'')) [] \<longrightarrow>
        (Str ''R2'', inst) \<in> set parts \<and>
        (py_eq (Str ''R2'') (Str ''R2'') \<longrightarrow> dict_get parts (Str ''R2'') = Some inst)"
    by blast
  from load have r: "read_kicad_netlist ''example.net''
        (example_netlist [example_component ''R1'' ''10k'', example_component ''R2'' ''22k''] [])
        example_world =
        (Inr ([(Str ''R1'', example_instance 0 ''R1'' ''10k''), (Str ''R2'', inst)],
              example_netlist [example_component ''R1'' ''10k'', example_component ''R2'' ''22k'']
                []), w2)"
    by (simp add: s(3))
  with final a q
  have d: "dict_get [(Str ''R1'', example_instance 0 ''R1'' ''10k''), (Str ''R2'', inst)]
      (Str ''R2'') = Some inst"
    by blast
  from step inst r d have
   "\<exists>inst w2.
      populate_part ''example.net'' [example_class] (example_component ''R2'' ''22k'')
        (example_world\<lparr>parts_constructed := 1\<rparr>) = (Inr inst, w2) \<and>
      refdes inst = Str ''R2'' \<and> pins inst = PINS example_class \<and>
      part_value inst = Str ''22k'' \<and> cls inst = example_class \<and>
      read_kicad_netlist ''example.net''
        (example_netlist [example_component ''R1'' ''10k'', example_component ''R2'' ''22k''] [])
        example_world =
        (Inr ([(Str ''R1'', example_instance 0 ''R1'' ''10k''), (Str ''R2'', inst)],
              example_netlist [example_component ''R1'' ''10k'', example_component ''R2'' ''22k'']
                []), w2) \<and>
      dict_get [(Str ''R1'', example_instance 0 ''R1'' ''10k''), (Str ''R2'', inst)] (Str ''R2'') =
        Some inst"
    by blast
  then show ?thesis
    by (intro conjI s(1) example_catalog s(2) h4 example_populate_first f h9 h12 a q)
qed



subsection \<open>A component without a footprint\<close>

text \<open>The loop body on a component that has no footprint.\<close>

lemma populate_part_without_footprint:
  assumes "subscript (List l) ''libsource'' = Inr libsource"
    and "field libsource ''lib'' = Inr lib"
    and "field libsource ''part'' = Inr part_name"
    and "find_part_class part_classes lib part_name = Some part_class"
    and "item_field (List l) ''ref'' = Inr r"
    and "item_field (List l) ''value'' = Inr v"
    and "filter (has_tag ''footprint'') l = []"
  shows "\<exists>inst w1.
     populate_part filename part_classes (List l) w = (Inr inst, w1) \<and>
     package inst = class_package part_class \<and>
     stdout w1 = stdout w @ [Does_not_have_a_footprint_defined (inst\<lparr>defined_at := None\<rparr>)] \<and>
     populate_parts filename part_classes (List l # components) parts w =
       populate_parts filename part_classes components (dict_set parts r inst) w1 \<and>
     (r, inst) \<in> set (dict_set parts r inst)"
proof -
  from assms(1) have "list_all scannable l" by (auto dest: getitem_Inr_scannable)
  with assms(7) have "getitem l ''footprint'' = Inl (KeyError ''footprint'')"
    by (simp add: getitem_scannable)
  then have "item_field (List l) ''footprint'' = Inl (KeyError ''footprint'')"
    by (simp add: item_field_def and_then_def)
  with populate_part_resolved [OF assms(1-6), of filename w]
  show ?thesis by (auto simp: Part_def dict_set_mem)
qed

text \<open>
  Claim C8. Take a load whose catalog is built and in which the components before a component
  are populated without an exception, and let the component have no child tagged
  \<^verbatim>\<open>footprint\<close>, a library and a part name that resolve to a class, a reference designator and
  a value. The load does not raise at this component: it constructs the instance, whose package
  stays the package of the class, prints the line that says that the part has no footprint
  defined, stores the instance in the mapping under the reference designator and goes on from
  there with the later components and the nets. The line is in what the load has printed,
  however the load ends. When the load returns, the mapping it returns holds this instance
  under the reference designator, unless a later component has the same reference designator.
\<close>

theorem missing_footprint:
  assumes "getitem netlist_contents ''libparts'' = Inr libparts"
    and "map_result read_kicad_netlist_partcls (tl libparts) = Inr part_classes"
    and "getitem netlist_contents ''components'' = Inr components"
    and "tl components = before @ List l # after"
    and "populate_parts filename part_classes before [] w = (Inr parts1, w1)"
    and "subscript (List l) ''libsource'' = Inr libsource"
    and "field libsource ''lib'' = Inr lib"
    and "field libsource ''part'' = Inr part_name"
    and "find_part_class part_classes lib part_name = Some part_class"
    and "item_field (List l) ''ref'' = Inr r"
    and "item_field (List l) ''value'' = Inr v"
    and "filter (has_tag ''footprint'') l = []"
  shows "\<exists>inst w2.
     populate_part filename part_classes (List l) w1 = (Inr inst, w2) \<and>
     refdes inst = r \<and> package inst = class_package part_class \<and>
     stdout w2 = stdout w1 @ [Does_not_have_a_footprint_defined (inst\<lparr>defined_at := None\<rparr>)] \<and>
     populate_parts filename part_classes (before @ [List l]) [] w =
       (Inr (dict_set parts1 r inst), w2) \<and>
     read_kicad_netlist filename netlist_contents w =
       (case populate_parts filename part_classes after (dict_set parts1 r inst) w2 of
          (Inl e, w3) \<Rightarrow> (Inl e, w3)
        | (Inr parts, w3) \<Rightarrow>
       (case getitem netlist_contents ''nets'' of
          Inl e \<Rightarrow> (Inl e, w3)
        | Inr net_sexps \<Rightarrow>
       (case build_nets filename parts (tl net_sexps) w3 of
          (Inl e, w4) \<Rightarrow> (Inl e, w4)
        | (Inr u, w4) \<Rightarrow> (Inr (parts, netlist_contents), w4)))) \<and>
     (\<exists>lines. stdout (snd (read_kicad_netlist filename netlist_contents w)) =
        stdout w1 @ Does_not_have_a_footprint_defined (inst\<lparr>defined_at := None\<rparr>) # lines) \<and>
     (\<forall>parts tree w'.
        read_kicad_netlist filename netlist_contents w = (Inr (parts, tree), w') \<longrightarrow>
        \<not> list_ex (same_refdes r) after \<longrightarrow>
        (r, inst) \<in> set parts \<and> (py_eq r r \<longrightarrow> dict_get parts r = Some inst))"
proof -
  from populate_part_without_footprint [OF assms(6-12), where w = w1]
  obtain inst w2 where
    step: "populate_part filename part_classes (List l) w1 = (Inr inst, w2)" and
    inst: "package inst = class_package part_class"
      "stdout w2 = stdout w1 @ [Does_not_have_a_footprint_defined (inst\<lparr>defined_at := None\<rparr>)]"
    by blast
  from populate_part_Inr [OF step] assms(10) have r: "refdes inst = r" by simp
  note l = load_after_component [OF assms(1-5) step, unfolded r]
  from rest_of_load_stdout [where filename = filename and pcs = part_classes and cs = after
      and ?parts0.0 = "dict_set parts1 r inst" and ?w0.0 = w2
      and netlist_contents = netlist_contents] l(2) inst(2)
  have s: "\<exists>lines. stdout (snd (read_kicad_netlist filename netlist_contents w)) =
        stdout w1 @ Does_not_have_a_footprint_defined (inst\<lparr>defined_at := None\<rparr>) # lines"
    by (simp del: populate_parts.simps build_nets.simps)
  have "\<forall>parts tree w'.
        read_kicad_netlist filename netlist_contents w = (Inr (parts, tree), w') \<longrightarrow>
        \<not> list_ex (same_refdes r) after \<longrightarrow>
        (r, inst) \<in> set parts \<and> (py_eq r r \<longrightarrow> dict_get parts r = Some inst)"
  proof (intro allI impI)
    fix parts tree w'
    assume ret: "read_kicad_netlist filename netlist_contents w = (Inr (parts, tree), w')"
      and a: "\<not> list_ex (same_refdes r) after"
    from rest_of_load_returns [OF trans [OF l(2) [symmetric] ret]] obtain w3 where
      "populate_parts filename part_classes after (dict_set parts1 r inst) w2 = (Inr parts, w3)"
      by blast
    from returned_mapping_holds [OF this a]
    show "(r, inst) \<in> set parts \<and> (py_eq r r \<longrightarrow> dict_get parts r = Some inst)" .
  qed
  then show ?thesis
    by (intro exI [where x = inst] exI [where x = w2] conjI step inst r l s)
qed

theorem missing_footprint_witness:
  "getitem (example_netlist [example_component ''R1'' ''10k'', List example_bare_component] [])
     ''libparts'' = Inr [Symbol ''libparts'', example_libpart] \<and>
   map_result read_kicad_netlist_partcls (tl [Symbol ''libparts'', example_libpart]) =
     Inr [example_class] \<and>
   getitem (example_netlist [example_component ''R1'' ''10k'', List example_bare_component] [])
     ''components'' =
     Inr [Symbol ''components'', example_component ''R1'' ''10k'', List example_bare_component] \<and>
   tl [Symbol ''components'', example_component ''R1'' ''10k'', List example_bare_component] =
     [example_component ''R1'' ''10k''] @ List example_bare_component # [] \<and>
   populate_parts ''example.net'' [example_class] [example_component ''R1'' ''10k''] []
     example_world =
     (Inr [(Str ''R1'', example_instance 0 ''R1'' ''10k'')],
      example_world\<lparr>parts_constructed := 1\<rparr>) \<and>
   subscript (List example_bare_component) ''libsource'' = Inr example_libsource \<and>
   field example_libsource ''lib'' = Inr (Str ''Device'') \<and>
   field example_libsource ''part'' = Inr (Str ''R'') \<and>
   find_part_class [example_class] (Str ''Device'') (Str ''R'') = Some example_class \<and>
   item_field (List example_bare_component) ''ref'' = Inr (Str ''R3'') \<and>
   item_field (List example_bare_component) ''value'' = Inr (Str ''1k'') \<and>
   filter (has_tag ''footprint'') example_bare_component = [] \<and>
   \<not> list_ex (same_refdes (Str ''R3'')) [] \<and>
   py_eq (Str ''R3'') (Str ''R3'') \<and>
   (\<exists>inst w2.
      populate_part ''example.net'' [example_class] (List example_bare_component)
        (example_world\<lparr>parts_constructed := 1\<rparr>) = (Inr inst, w2) \<and>
      refdes inst = Str ''R3'' \<and> package inst = class_package example_class \<and>
      stdout w2 = stdout (example_world\<lparr>parts_constructed := 1\<rparr>) @
        [Does_not_have_a_footprint_defined (inst\<lparr>defined_at := None\<rparr>)] \<and>
      read_kicad_netlist ''example.net''
        (example_netlist [example_component ''R1'' ''10k'', List example_bare_component] [])
        example_world =
        (Inr ([(Str ''R1'', example_instance 0 ''R1'' ''10k''), (Str ''R3'', inst)],
              example_netlist [example_component ''R1'' ''10k'', List example_bare_component] []),
         w2) \<and>
      dict_get [(Str ''R1'', example_instance 0 ''R1'' ''10k''), (Str ''R3'', inst)] (Str ''R3'') =
        Some inst)"
proof -
  have h4: "tl [Symbol ''components'', example_component ''R1'' ''10k'',
               List example_bare_component] =
     [example_component ''R1'' ''10k''] @ List example_bare_component # []"
    by simp
  have h6: "subscript (List example_bare_component) ''libsource'' = Inr example_libsource"
    by (simp add: example_bare_component_def example_libsource_def lookups)
  have h9: "find_part_class [example_class] (Str ''Device'') (Str ''R'') = Some example_class"
    by (simp add: example_class_def)
  have h10: "item_field (List example_bare_component) ''ref'' = Inr (Str ''R3'')"
    by (simp add: example_bare_component_def example_libsource_def lookups)
  have h11: "item_field (List example_bare_component) ''value'' = Inr (Str ''1k'')"
    by (simp add: example_bare_component_def example_libsource_def lookups)
  have h12: "filter (has_tag ''footprint'') example_bare_component = []"
    by (simp add: example_bare_component_def example_libsource_def tagged_def)
  have a: "\<not> list_ex (same_refdes (Str ''R3'')) []" by simp
  have q: "py_eq (Str ''R3'') (Str ''R3'')" by simp
  note s = example_netlist_sections
  note f = example_libsource_fields(2,3)
  from missing_footprint [OF s(1) example_catalog s(2) h4 example_populate_first h6 f h9
      h10 h11 h12]
  obtain inst w2 where
    step: "populate_part ''example.net'' [example_class] (List example_bare_component)
        (example_world\<lparr>parts_constructed := 1\<rparr>) = (Inr inst, w2)" and
    inst: "refdes inst = Str ''R3''" "package inst = class_package example_class"
      "stdout w2 = stdout (example_world\<lparr>parts_constructed := 1\<rparr>) @
        [Does_not_have_a_footprint_defined (inst\<lparr>defined_at := None\<rparr>)]" and
    load: "read_kicad_netlist ''example.net''
        (example_netlist [example_component ''R1'' ''10k'', List example_bare_component] [])
        example_world =
       (case populate_parts ''example.net'' [example_class] []
          (dict_set [(Str ''R1'', example_instance 0 ''R1'' ''10k'')] (Str ''R3'') inst) w2 of
          (Inl e, w3) \<Rightarrow> (Inl e, w3)
        | (Inr parts, w3) \<Rightarrow>
       (case getitem (example_netlist [example_component ''R1'' ''10k'',
                         List example_bare_component] []) ''nets'' of
          Inl e \<Rightarrow> (Inl e, w3)
        | Inr net_sexps \<Rightarrow>
       (case build_nets ''example.net'' parts (tl net_sexps) w3 of
          (Inl e, w4) \<Rightarrow> (Inl e, w4)
        | (Inr u, w4) \<Rightarrow>
            (Inr (parts, example_netlist [example_component ''R1'' ''10k'',
                           List example_bare_component] []), w4))))" and
    final: "\<forall>parts tree w'.
        read_kicad_netlist ''example.net''
          (example_netlist [example_component ''R1'' ''10k'', List example_bare_component] [])
          example_world = (Inr (parts, tree), w') \<longrightarrow>
        \<not> list_ex (same_refdes (Str ''R3'')) [] \<longrightarrow>
        (Str ''R3'', inst) \<in> set parts \<and>
        (py_eq (Str ''R3'') (Str ''R3'') \<longrightarrow> dict_get parts (Str ''R3'') = Some inst)"
    by blast
  from load have r: "read_kicad_netlist ''example.net''
        (example_netlist [example_component ''R1'' ''10k'', List example_bare_component] [])
        example_world =
        (Inr ([(Str ''R1'', example_instance 0 ''R1'' ''10k''), (Str ''R3'', inst)],
              example_netlist [example_component ''R1'' ''10k'', List example_bare_component] []),
         w2)"
    by (simp add: s(3))
  with final a q
  have d: "dict_get [(Str ''R1'', example_instance 0 ''R1'' ''10k''), (Str ''R3'', inst)]
      (Str ''R3'') = Some inst"
    by blast
  from step inst r d have
   "\<exists>inst w2.
      populate_part ''example.net'' [example_class] (List example_bare_component)
        (example_world\<lparr>parts_constructed := 1\<rparr>) = (Inr inst, w2) \<and>
      refdes inst = Str ''R3'' \<and> package inst = class_package example_class \<and>
      stdout w2 = stdout (example_world\<lparr>parts_constructed := 1\<rparr>) @
        [Does_not_have_a_footprint_defined (inst\<lparr>defined_at := None\<rparr>)] \<and>
      read_kicad_netlist ''example.net''
        (example_netlist [example_component ''R1'' ''10k'', List example_bare_component] [])
        example_world =
        (Inr ([(Str ''R1'', example_instance 0 ''R1'' ''10k''), (Str ''R3'', inst)],
              example_netlist [example_component ''R1'' ''10k'', List example_bare_component] []),
         w2) \<and>
      dict_get [(Str ''R1'', example_instance 0 ''R1'' ''10k''), (Str ''R3'', inst)] (Str ''R3'') =
        Some inst"
    by blast
  then show ?thesis
    by (intro conjI s(1) example_catalog s(2) h4 example_populate_first h6 f h9 h10 h11 h12 a q)
qed

subsection \<open>A component that no template matches\<close>

text \<open>
  Claim C2. When the catalog is built, the components before a component are populated without
  an exception, and no class of the catalog matches the library and the part name of that
  component, the load raises \<^verbatim>\<open>PartNotFoundException\<close>. The exception is built from
  \<^verbatim>\<open>libsource[1:]\<close>, which holds the entry \<^verbatim>\<open>(lib ...)\<close> with the library and the entry
  \<^verbatim>\<open>(part ...)\<close> with the part name that were not matched.
\<close>

theorem unmatched_template:
  assumes "getitem netlist_contents ''libparts'' = Inr libparts"
    and "map_result read_kicad_netlist_partcls (tl libparts) = Inr part_classes"
    and "getitem netlist_contents ''components'' = Inr components"
    and "tl components = before @ component # after"
    and "populate_parts filename part_classes before [] w = (Inr parts1, w1)"
    and "subscript component ''libsource'' = Inr libsource"
    and "field libsource ''lib'' = Inr lib"
    and "field libsource ''part'' = Inr part_name"
    and "filter (matches lib part_name) part_classes = []"
  shows "read_kicad_netlist filename netlist_contents w =
           (Inl (PartNotFoundException (tl libsource)), w1) \<and>
         list_ex (tags_value ''lib'' lib) (tl libsource) \<and>
         list_ex (tags_value ''part'' part_name) (tl libsource)"
proof (intro conjI)
  from assms(9) have "find_part_class part_classes lib part_name = None"
    by (simp add: find_part_class_filter)
  with assms(6-8) have "populate_part filename part_classes component w1 =
      (Inl (PartNotFoundException (tl libsource)), w1)"
    by (rule populate_part_unmatched)
  with assms(4,5) have
    "populate_parts filename part_classes (tl components) [] w =
       (Inl (PartNotFoundException (tl libsource)), w1)"
    by (simp add: populate_parts_append)
  with assms(1-3) show "read_kicad_netlist filename netlist_contents w =
      (Inl (PartNotFoundException (tl libsource)), w1)"
    by (simp add: read_kicad_netlist_populated)
next
  from assms(6,7) show "list_ex (tags_value ''lib'' lib) (tl libsource)"
    using field_tags_value tagged_list_tl by blast
next
  from assms(6,8) show "list_ex (tags_value ''part'' part_name) (tl libsource)"
    using field_tags_value tagged_list_tl by blast
qed

theorem unmatched_template_witness:
  "getitem (example_netlist [example_component ''R1'' ''10k'', example_unmatched_component] [])
     ''libparts'' = Inr [Symbol ''libparts'', example_libpart] \<and>
   map_result read_kicad_netlist_partcls (tl [Symbol ''libparts'', example_libpart]) =
     Inr [example_class] \<and>
   getitem (example_netlist [example_component ''R1'' ''10k'', example_unmatched_component] [])
     ''components'' =
     Inr [Symbol ''components'', example_component ''R1'' ''10k'', example_unmatched_component] \<and>
   tl [Symbol ''components'', example_component ''R1'' ''10k'', example_unmatched_component] =
     [example_component ''R1'' ''10k''] @ example_unmatched_component # [] \<and>
   populate_parts ''example.net'' [example_class] [example_component ''R1'' ''10k''] []
     example_world =
     (Inr [(Str ''R1'', example_instance 0 ''R1'' ''10k'')],
      example_world\<lparr>parts_constructed := 1\<rparr>) \<and>
   subscript example_unmatched_component ''libsource'' = Inr example_unmatched_libsource \<and>
   field example_unmatched_libsource ''lib'' = Inr (Str ''Device'') \<and>
   field example_unmatched_libsource ''part'' = Inr (Str ''Q'') \<and>
   filter (matches (Str ''Device'') (Str ''Q'')) [example_class] = [] \<and>
   read_kicad_netlist ''example.net''
     (example_netlist [example_component ''R1'' ''10k'', example_unmatched_component] [])
     example_world =
     (Inl (PartNotFoundException (tl example_unmatched_libsource)),
      example_world\<lparr>parts_constructed := 1\<rparr>) \<and>
   list_ex (tags_value ''lib'' (Str ''Device'')) (tl example_unmatched_libsource) \<and>
   list_ex (tags_value ''part'' (Str ''Q'')) (tl example_unmatched_libsource)"
proof -
  have h4: "tl [Symbol ''components'', example_component ''R1'' ''10k'', example_unmatched_component] =
     [example_component ''R1'' ''10k''] @ example_unmatched_component # []"
    by simp
  have h6: "subscript example_unmatched_component ''libsource'' = Inr example_unmatched_libsource"
    by (simp add: example_unmatched_component_def example_unmatched_libsource_def lookups)
  have h7: "field example_unmatched_libsource ''lib'' = Inr (Str ''Device'')"
    by (simp add: example_unmatched_libsource_def lookups)
  have h8: "field example_unmatched_libsource ''part'' = Inr (Str ''Q'')"
    by (simp add: example_unmatched_libsource_def lookups)
  have h9: "filter (matches (Str ''Device'') (Str ''Q'')) [example_class] = []"
    by (simp add: matches_def example_class_def)
  note s = example_netlist_sections
  from unmatched_template [OF s(1) example_catalog s(2) h4 example_populate_first h6 h7 h8 h9]
  show ?thesis using s(1,2) example_catalog h4 example_populate_first h6 h7 h8 h9 by blast
qed

subsection \<open>Two components with one reference designator\<close>

text \<open>The loop on a component whose reference designator is in the mapping already.\<close>

lemma populate_parts_overwrites:
  assumes "populate_parts filename part_classes before [] w = (Inr parts1, w1)"
    and "list_ex (same_refdes r) before"
    and "subscript component ''libsource'' = Inr libsource"
    and "field libsource ''lib'' = Inr lib"
    and "field libsource ''part'' = Inr part_name"
    and "find_part_class part_classes lib part_name = Some part_class"
    and "item_field component ''ref'' = Inr r"
    and "item_field component ''value'' = Inr v"
    and "item_field component ''footprint'' \<noteq> Inl IndexError"
  shows "\<exists>earlier inst w2.
     dict_get parts1 r = Some earlier \<and>
     populate_part filename part_classes component w1 = (Inr inst, w2) \<and>
     uid earlier < uid inst \<and>
     stdout w2 = stdout w1 @
       (case item_field component ''footprint'' of
          Inl e \<Rightarrow> [Does_not_have_a_footprint_defined (inst\<lparr>defined_at := None\<rparr>)]
        | Inr footprint \<Rightarrow> []) \<and>
     populate_parts filename part_classes (before @ component # after) [] w =
       populate_parts filename part_classes after (dict_set parts1 r inst) w2 \<and>
     dict_get (dict_set parts1 r inst) r = Some inst \<and>
     (\<forall>parts w'.
        populate_parts filename part_classes (before @ component # after) [] w = (Inr parts, w') \<longrightarrow>
        \<not> list_ex (same_refdes r) after \<longrightarrow> dict_get parts r = Some inst)"
proof -
  note p = populate_part_resolved [OF assms(3-8), of filename w1]
  have "\<exists>inst w2. populate_part filename part_classes component w1 = (Inr inst, w2)"
  proof (cases "item_field component ''footprint''")
    case (Inl e)
    with assms(3,9) have "is_KeyError e" using item_field_errors by blast
    with Inl p show ?thesis by simp
  next
    case (Inr footprint)
    with p show ?thesis by simp
  qed
  then obtain inst w2 where
    step: "populate_part filename part_classes component w1 = (Inr inst, w2)" by blast
  note i = populate_part_Inr [OF step]
  with assms(7) have r: "refdes inst = r" by simp
  from populate_parts_same_refdes [OF assms(2,1)] obtain earlier where
    e: "dict_get parts1 r = Some earlier" "uid earlier < parts_constructed w1"
    by auto
  from assms(2) have "py_eq r r"
    by (auto simp: list_ex_iff dest: same_refdes_atom)
  then have d: "dict_get (dict_set parts1 r inst) r = Some inst"
    by (simp add: dict_get_set)
  from assms(1) step r
  have l: "populate_parts filename part_classes (before @ component # after) [] w =
      populate_parts filename part_classes after (dict_set parts1 r inst) w2"
    by (simp add: populate_parts_append)
  have "\<forall>parts w'.
        populate_parts filename part_classes (before @ component # after) [] w = (Inr parts, w') \<longrightarrow>
        \<not> list_ex (same_refdes r) after \<longrightarrow> dict_get parts r = Some inst"
    using l d populate_parts_other_refdes by metis
  with e step i d l show ?thesis by auto
qed

text \<open>
  Claim C9. Take a load whose catalog is built, and a component that has the reference
  designator of a component before it, when the components before it are populated without an
  exception; let its entry be well formed: its library and part name resolve to a class, it has
  a value, and its footprint entry, if it has one, holds a value. The load raises nothing for
  it: it constructs a new instance, prints nothing but the line about a missing footprint, and
  that only when the lookup of the footprint raises, stores the new instance under the
  reference designator in place of the earlier one, and goes on from there. When the load
  returns and no later component has this reference designator, the mapping that the load
  returns holds the instance constructed from the later component.
\<close>

theorem last_write_wins:
  assumes "getitem netlist_contents ''libparts'' = Inr libparts"
    and "map_result read_kicad_netlist_partcls (tl libparts) = Inr part_classes"
    and "getitem netlist_contents ''components'' = Inr components"
    and "tl components = before @ component # after"
    and "populate_parts filename part_classes before [] w = (Inr parts1, w1)"
    and "list_ex (same_refdes r) before"
    and "subscript component ''libsource'' = Inr libsource"
    and "field libsource ''lib'' = Inr lib"
    and "field libsource ''part'' = Inr part_name"
    and "find_part_class part_classes lib part_name = Some part_class"
    and "item_field component ''ref'' = Inr r"
    and "item_field component ''value'' = Inr v"
    and "item_field component ''footprint'' \<noteq> Inl IndexError"
  shows "\<exists>earlier inst w2.
     dict_get parts1 r = Some earlier \<and>
     populate_part filename part_classes component w1 = (Inr inst, w2) \<and>
     uid earlier < uid inst \<and>
     stdout w2 = stdout w1 @
       (case item_field component ''footprint'' of
          Inl e \<Rightarrow> [Does_not_have_a_footprint_defined (inst\<lparr>defined_at := None\<rparr>)]
        | Inr footprint \<Rightarrow> []) \<and>
     populate_parts filename part_classes (before @ [component]) [] w =
       (Inr (dict_set parts1 r inst), w2) \<and>
     dict_get (dict_set parts1 r inst) r = Some inst \<and>
     read_kicad_netlist filename netlist_contents w =
       (case populate_parts filename part_classes after (dict_set parts1 r inst) w2 of
          (Inl e, w3) \<Rightarrow> (Inl e, w3)
        | (Inr parts, w3) \<Rightarrow>
       (case getitem netlist_contents ''nets'' of
          Inl e \<Rightarrow> (Inl e, w3)
        | Inr net_sexps \<Rightarrow>
       (case build_nets filename parts (tl net_sexps) w3 of
          (Inl e, w4) \<Rightarrow> (Inl e, w4)
        | (Inr u, w4) \<Rightarrow> (Inr (parts, netlist_contents), w4)))) \<and>
     (\<forall>parts tree w'.
        read_kicad_netlist filename netlist_contents w = (Inr (parts, tree), w') \<longrightarrow>
        \<not> list_ex (same_refdes r) after \<longrightarrow> dict_get parts r = Some inst)"
proof -
  from populate_parts_overwrites [OF assms(5-13), where after = "[]"]
  obtain earlier inst w2 where
    e: "dict_get parts1 r = Some earlier" "uid earlier < uid inst" and
    step: "populate_part filename part_classes component w1 = (Inr inst, w2)" and
    out: "stdout w2 = stdout w1 @
       (case item_field component ''footprint'' of
          Inl e \<Rightarrow> [Does_not_have_a_footprint_defined (inst\<lparr>defined_at := None\<rparr>)]
        | Inr footprint \<Rightarrow> [])" and
    d: "dict_get (dict_set parts1 r inst) r = Some inst"
    by blast
  from populate_part_Inr [OF step] assms(11) have r: "refdes inst = r" by simp
  note l = load_after_component [OF assms(1-5) step, unfolded r]
  from assms(6) have atom: "py_eq r r"
    by (auto simp: list_ex_iff dest: same_refdes_atom)
  have "\<forall>parts tree w'.
        read_kicad_netlist filename netlist_contents w = (Inr (parts, tree), w') \<longrightarrow>
        \<not> list_ex (same_refdes r) after \<longrightarrow> dict_get parts r = Some inst"
  proof (intro allI impI)
    fix parts tree w'
    assume ret: "read_kicad_netlist filename netlist_contents w = (Inr (parts, tree), w')"
      and a: "\<not> list_ex (same_refdes r) after"
    from rest_of_load_returns [OF trans [OF l(2) [symmetric] ret]] obtain w3 where
      "populate_parts filename part_classes after (dict_set parts1 r inst) w2 = (Inr parts, w3)"
      by blast
    from returned_mapping_holds [OF this a] atom
    show "dict_get parts r = Some inst" by simp
  qed
  then show ?thesis
    by (intro exI [where x = earlier] exI [where x = inst] exI [where x = w2] conjI e step out d l)
qed

theorem last_write_wins_witness:
  "getitem (example_netlist [example_component ''R1'' ''10k'', example_component ''R1'' ''22k'',
              example_component ''R2'' ''1k''] [])
     ''libparts'' = Inr [Symbol ''libparts'', example_libpart] \<and>
   map_result read_kicad_netlist_partcls (tl [Symbol ''libparts'', example_libpart]) =
     Inr [example_class] \<and>
   getitem (example_netlist [example_component ''R1'' ''10k'', example_component ''R1'' ''22k'',
              example_component ''R2'' ''1k''] [])
     ''components'' =
     Inr [Symbol ''components'', example_component ''R1'' ''10k'', example_component ''R1'' ''22k'',
          example_component ''R2'' ''1k''] \<and>
   tl [Symbol ''components'', example_component ''R1'' ''10k'', example_component ''R1'' ''22k'',
       example_component ''R2'' ''1k''] =
     [example_component ''R1'' ''10k''] @ example_component ''R1'' ''22k'' #
       [example_component ''R2'' ''1k''] \<and>
   populate_parts ''example.net'' [example_class] [example_component ''R1'' ''10k''] []
     example_world =
     (Inr [(Str ''R1'', example_instance 0 ''R1'' ''10k'')],
      example_world\<lparr>parts_constructed := 1\<rparr>) \<and>
   list_ex (same_refdes (Str ''R1'')) [example_component ''R1'' ''10k''] \<and>
   subscript (example_component ''R1'' ''22k'') ''libsource'' = Inr example_libsource \<and>
   field example_libsource ''lib'' = Inr (Str ''Device'') \<and>
   field example_libsource ''part'' = Inr (Str ''R'') \<and>
   find_part_class [example_class] (Str ''Device'') (Str ''R'') = Some example_class \<and>
   item_field (example_component ''R1'' ''22k'') ''ref'' = Inr (Str ''R1'') \<and>
   item_field (example_component ''R1'' ''22k'') ''value'' = Inr (Str ''22k'') \<and>
   item_field (example_component ''R1'' ''22k'') ''footprint'' \<noteq> Inl IndexError \<and>
   \<not> list_ex (same_refdes (Str ''R1'')) [example_component ''R2'' ''1k''] \<and>
   (\<exists>earlier inst w2.
      dict_get [(Str ''R1'', example_instance 0 ''R1'' ''10k'')] (Str ''R1'') = Some earlier \<and>
      populate_part ''example.net'' [example_class] (example_component ''R1'' ''22k'')
        (example_world\<lparr>parts_constructed := 1\<rparr>) = (Inr inst, w2) \<and>
      uid earlier < uid inst \<and>
      stdout w2 = stdout (example_world\<lparr>parts_constructed := 1\<rparr>) \<and>
      read_kicad_netlist ''example.net''
        (example_netlist [example_component ''R1'' ''10k'', example_component ''R1'' ''22k'',
           example_component ''R2'' ''1k''] []) example_world =
        (Inr ([(Str ''R1'', inst),
               (Str ''R2'', example_instance (parts_constructed w2) ''R2'' ''1k'')],
              example_netlist [example_component ''R1'' ''10k'', example_component ''R1'' ''22k'',
                example_component ''R2'' ''1k''] []),
         w2\<lparr>parts_constructed := Suc (parts_constructed w2)\<rparr>) \<and>
      dict_get [(Str ''R1'', inst),
                (Str ''R2'', example_instance (parts_constructed w2) ''R2'' ''1k'')] (Str ''R1'') =
        Some inst)"
proof -
  have h4: "tl [Symbol ''components'', example_component ''R1'' ''10k'',
       example_component ''R1'' ''22k'', example_component ''R2'' ''1k''] =
     [example_component ''R1'' ''10k''] @ example_component ''R1'' ''22k'' #
       [example_component ''R2'' ''1k'']"
    by simp
  have h6: "list_ex (same_refdes (Str ''R1'')) [example_component ''R1'' ''10k'']"
    by (simp add: same_refdes_def example_libsource_fields)
  have h10: "find_part_class [example_class] (Str ''Device'') (Str ''R'') = Some example_class"
    by (simp add: example_class_def)
  have h13: "item_field (example_component ''R1'' ''22k'') ''footprint'' \<noteq> Inl IndexError"
    by (simp add: example_libsource_fields)
  have a: "\<not> list_ex (same_refdes (Str ''R1'')) [example_component ''R2'' ''1k'']"
    by (simp add: same_refdes_def example_libsource_fields)
  note s = example_netlist_sections
  note f = example_libsource_fields
  from last_write_wins [OF s(1) example_catalog s(2) h4 example_populate_first h6 f(1-3) h10
      f(4,5) h13]
  obtain earlier inst w2 where
    e: "dict_get [(Str ''R1'', example_instance 0 ''R1'' ''10k'')] (Str ''R1'') = Some earlier"
      "uid earlier < uid inst" and
    step: "populate_part ''example.net'' [example_class] (example_component ''R1'' ''22k'')
        (example_world\<lparr>parts_constructed := 1\<rparr>) = (Inr inst, w2)" and
    out: "stdout w2 = stdout (example_world\<lparr>parts_constructed := 1\<rparr>) @
       (case item_field (example_component ''R1'' ''22k'') ''footprint'' of
          Inl e \<Rightarrow> [Does_not_have_a_footprint_defined (inst\<lparr>defined_at := None\<rparr>)]
        | Inr footprint \<Rightarrow> [])" and
    load: "read_kicad_netlist ''example.net''
        (example_netlist [example_component ''R1'' ''10k'', example_component ''R1'' ''22k'',
           example_component ''R2'' ''1k''] []) example_world =
       (case populate_parts ''example.net'' [example_class] [example_component ''R2'' ''1k'']
          (dict_set [(Str ''R1'', example_instance 0 ''R1'' ''10k'')] (Str ''R1'') inst) w2 of
          (Inl e, w3) \<Rightarrow> (Inl e, w3)
        | (Inr parts, w3) \<Rightarrow>
       (case getitem (example_netlist [example_component ''R1'' ''10k'',
                         example_component ''R1'' ''22k'', example_component ''R2'' ''1k''] [])
               ''nets'' of
          Inl e \<Rightarrow> (Inl e, w3)
        | Inr net_sexps \<Rightarrow>
       (case build_nets ''example.net'' parts (tl net_sexps) w3 of
          (Inl e, w4) \<Rightarrow> (Inl e, w4)
        | (Inr u, w4) \<Rightarrow>
            (Inr (parts, example_netlist [example_component ''R1'' ''10k'',
                           example_component ''R1'' ''22k'', example_component ''R2'' ''1k''] []),
             w4))))" and
    final: "\<forall>parts tree w'.
        read_kicad_netlist ''example.net''
          (example_netlist [example_component ''R1'' ''10k'', example_component ''R1'' ''22k'',
             example_component ''R2'' ''1k''] []) example_world = (Inr (parts, tree), w') \<longrightarrow>
        \<not> list_ex (same_refdes (Str ''R1'')) [example_component ''R2'' ''1k''] \<longrightarrow>
        dict_get parts (Str ''R1'') = Some inst"
    by blast
  from load have r: "read_kicad_netlist ''example.net''
        (example_netlist [example_component ''R1'' ''10k'', example_component ''R1'' ''22k'',
           example_component ''R2'' ''1k''] []) example_world =
        (Inr ([(Str ''R1'', inst),
               (Str ''R2'', example_instance (parts_constructed w2) ''R2'' ''1k'')],
              example_netlist [example_component ''R1'' ''10k'', example_component ''R1'' ''22k'',
                example_component ''R2'' ''1k''] []),
         w2\<lparr>parts_constructed := Suc (parts_constructed w2)\<rparr>)"
    by (simp add: s(3) example_populate_last del: populate_parts.simps)
  with final a
  have d: "dict_get [(Str ''R1'', inst),
                (Str ''R2'', example_instance (parts_constructed w2) ''R2'' ''1k'')] (Str ''R1'') =
        Some inst"
    by blast
  from out have o: "stdout w2 = stdout (example_world\<lparr>parts_constructed := 1\<rparr>)"
    by (simp add: example_libsource_fields)
  from e step o r d have
   "\<exists>earlier inst w2.
      dict_get [(Str ''R1'', example_instance 0 ''R1'' ''10k'')] (Str ''R1'') = Some earlier \<and>
      populate_part ''example.net'' [example_class] (example_component ''R1'' ''22k'')
        (example_world\<lparr>parts_constructed := 1\<rparr>) = (Inr inst, w2) \<and>
      uid earlier < uid inst \<and>
      stdout w2 = stdout (example_world\<lparr>parts_constructed := 1\<rparr>) \<and>
      read_kicad_netlist ''example.net''
        (example_netlist [example_component ''R1'' ''10k'', example_component ''R1'' ''22k'',
           example_component ''R2'' ''1k''] []) example_world =
        (Inr ([(Str ''R1'', inst),
               (Str ''R2'', example_instance (parts_constructed w2) ''R2'' ''1k'')],
              example_netlist [example_component ''R1'' ''10k'', example_component ''R1'' ''22k'',
                example_component ''R2'' ''1k''] []),
         w2\<lparr>parts_constructed := Suc (parts_constructed w2)\<rparr>) \<and>
      dict_get [(Str ''R1'', inst),
                (Str ''R2'', example_instance (parts_constructed w2) ''R2'' ''1k'')] (Str ''R1'') =
        Some inst"
    by blast
  then show ?thesis
    by (intro conjI s(1) example_catalog s(2) h4 example_populate_first h6 f h10 h13 a)
qed

subsection \<open>Nets that go nowhere\<close>



subsection \<open>A logical pin is connected once\<close>

text \<open>
  Claim C4. In every net that a load constructs, whether the load returns or raises, no pin
  occurs twice among the connections; and the loop body for a node either leaves the net as it
  is or adds one pin that was not among its connections.
\<close>

theorem logical_pin_once:
  "list_all (\<lambda>n. distinct (connections n))
     (drop (length (nets w)) (nets (snd (read_kicad_netlist filename netlist_contents w)))) \<and>
   (\<forall>n1. connect_node parts n node = Inr n1 \<longrightarrow>
      n1 = n \<or> (\<exists>p. p \<notin> set (connections n) \<and> n1 = connect n p))"
  using read_kicad_netlist_nets [of filename netlist_contents w] connect_node_cases
  by auto

theorem logical_pin_once_witness:
  "list_all (\<lambda>n. distinct (connections n))
     (drop (length (nets example_world))
        (nets (snd (read_kicad_netlist ''example.net''
           (example_netlist [example_component ''R1'' ''10k'', example_component ''R2'' ''22k'']
              [List example_single_net, List example_ganged_net]) example_world)))) \<and>
   nets (snd (read_kicad_netlist ''example.net''
           (example_netlist [example_component ''R1'' ''10k'', example_component ''R2'' ''22k'']
              [List example_single_net, List example_ganged_net]) example_world)) =
     [\<lparr>net_name = Str ''Net-(R1-Pad1)'', net_defined_at = Some ''example.net'',
       connections = [(0, 0), (1, 1)]\<rparr>] \<and>
   connect_node example_parts
     \<lparr>net_name = Str ''Net-(R1-Pad1)'', net_defined_at = Some ''example.net'',
      connections = [(0, 0)]\<rparr> (example_node ''R1'' ''3'') =
     Inr \<lparr>net_name = Str ''Net-(R1-Pad1)'', net_defined_at = Some ''example.net'',
          connections = [(0, 0)]\<rparr>"
proof -
  have c: "connect_node example_parts
     \<lparr>net_name = Str ''Net-(R1-Pad1)'', net_defined_at = Some ''example.net'',
      connections = [(0, 0)]\<rparr> (example_node ''R1'' ''3'') =
     Inr \<lparr>net_name = Str ''Net-(R1-Pad1)'', net_defined_at = Some ''example.net'',
          connections = [(0, 0)]\<rparr>"
    by (simp add: connect_node_def and_then_def example_node_fields example_pin_numbers
          example_parts_lookup example_instance_fields)
  have n: "nets (snd (read_kicad_netlist ''example.net''
           (example_netlist [example_component ''R1'' ''10k'', example_component ''R2'' ''22k'']
              [List example_single_net, List example_ganged_net]) example_world)) =
     [\<lparr>net_name = Str ''Net-(R1-Pad1)'', net_defined_at = Some ''example.net'',
       connections = [(0, 0), (1, 1)]\<rparr>]"
    by (simp add: example_load) (simp add: example_world_def)
  from logical_pin_once [where w = example_world and filename = "''example.net''"
      and netlist_contents =
        "example_netlist [example_component ''R1'' ''10k'', example_component ''R2'' ''22k'']
           [List example_single_net, List example_ganged_net]"
      and parts = example_parts
      and n = "\<lparr>net_name = Str ''Net-(R1-Pad1)'', net_defined_at = Some ''example.net'',
        connections = [(0, 0)]\<rparr>"
      and node = "example_node ''R1'' ''3''"]
  show ?thesis using c n by blast
qed

subsection \<open>A pin number that the part does not have\<close>

text \<open>
  Claim C5, as the code has it. Take a node of a net that the loop body does not skip as going
  nowhere. When the parts are populated, the nets before the net are built and the nodes before
  the node are connected without an exception, the reference designator of the node is in the
  mapping, and no pin of that part holds the pin number of the node among its numbers, the load
  raises the \<^verbatim>\<open>KeyError\<close> "Couldn't find pin numbered ...": it returns no mapping. The net
  stays registered in the design with the pins connected before.
\<close>

theorem pin_not_found:
  assumes "getitem netlist_contents ''libparts'' = Inr libparts"
    and "map_result read_kicad_netlist_partcls (tl libparts) = Inr part_classes"
    and "getitem netlist_contents ''components'' = Inr components"
    and "populate_parts filename part_classes (tl components) [] w = (Inr parts, w1)"
    and "getitem netlist_contents ''nets'' = Inr net_sexps"
    and "tl net_sexps = before @ List l # after"
    and "build_nets filename parts before w1 = (Inr (), w2)"
    and "field l ''name'' = Inr name"
    and "find_all l ''node'' = Inr (nodes_before @ node # nodes_after)"
    and "goes_nowhere (nodes_before @ node # nodes_after) name = Inr False"
    and "connect_nodes parts ((Net name)\<lparr>net_defined_at := Some filename\<rparr>) nodes_before = (None, n)"
    and "field node ''pin'' = Inr pin_number"
    and "field node ''ref'' = Inr r"
    and "dict_get parts r = Some part"
    and "\<not> list_ex (\<lambda>p. number_in pin_number (numbers p)) (pins part)"
  shows "read_kicad_netlist filename netlist_contents w =
           (Inl (KeyError_pin_not_found pin_number (refdes part)), w2\<lparr>nets := nets w2 @ [n]\<rparr>)"
proof -
  from assms(12-15)
  have "connect_node parts n node = Inl (KeyError_pin_not_found pin_number (refdes part))"
    by (rule connect_node_pin_not_found)
  with assms(11)
  have "connect_nodes parts ((Net name)\<lparr>net_defined_at := Some filename\<rparr>)
          (nodes_before @ node # nodes_after) =
        (Some (KeyError_pin_not_found pin_number (refdes part)), n)"
    by (simp add: connect_nodes_append)
  with build_net_constructed [OF assms(8-10), of filename parts w2]
  have "build_net filename parts (List l) w2 =
          (Inl (KeyError_pin_not_found pin_number (refdes part)), w2\<lparr>nets := nets w2 @ [n]\<rparr>)"
    by simp
  with assms(6,7)
  have "build_nets filename parts (tl net_sexps) w1 =
          (Inl (KeyError_pin_not_found pin_number (refdes part)), w2\<lparr>nets := nets w2 @ [n]\<rparr>)"
    by (simp add: build_nets_append)
  with assms(1-5) show ?thesis
    by (simp add: read_kicad_netlist_populated)
qed

theorem pin_not_found_witness:
  "getitem (example_netlist [example_component ''R1'' ''10k'', example_component ''R2'' ''22k'']
              [List example_single_net, List example_bad_net]) ''libparts'' =
     Inr [Symbol ''libparts'', example_libpart] \<and>
   map_result read_kicad_netlist_partcls (tl [Symbol ''libparts'', example_libpart]) =
     Inr [example_class] \<and>
   getitem (example_netlist [example_component ''R1'' ''10k'', example_component ''R2'' ''22k'']
              [List example_single_net, List example_bad_net]) ''components'' =
     Inr (Symbol ''components'' #
          [example_component ''R1'' ''10k'', example_component ''R2'' ''22k'']) \<and>
   populate_parts ''example.net'' [example_class]
     (tl (Symbol ''components'' #
          [example_component ''R1'' ''10k'', example_component ''R2'' ''22k''])) []
     example_world = (Inr example_parts, example_world\<lparr>parts_constructed := 2\<rparr>) \<and>
   getitem (example_netlist [example_component ''R1'' ''10k'', example_component ''R2'' ''22k'']
              [List example_single_net, List example_bad_net]) ''nets'' =
     Inr (Symbol ''nets'' # [List example_single_net, List example_bad_net]) \<and>
   tl (Symbol ''nets'' # [List example_single_net, List example_bad_net]) =
     [List example_single_net] @ List example_bad_net # [] \<and>
   build_nets ''example.net'' example_parts [List example_single_net]
     (example_world\<lparr>parts_constructed := 2\<rparr>) =
     (Inr (), example_world\<lparr>parts_constructed := 2\<rparr>) \<and>
   field example_bad_net ''name'' = Inr (Str ''GND'') \<and>
   find_all example_bad_net ''node'' =
     Inr ([example_node ''R2'' ''1''] @ example_node ''R1'' ''9'' # []) \<and>
   goes_nowhere ([example_node ''R2'' ''1''] @ example_node ''R1'' ''9'' # []) (Str ''GND'') =
     Inr False \<and>
   connect_nodes example_parts ((Net (Str ''GND''))\<lparr>net_defined_at := Some ''example.net''\<rparr>)
     [example_node ''R2'' ''1''] =
     (None, \<lparr>net_name = Str ''GND'', net_defined_at = Some ''example.net'',
             connections = [(1, 0)]\<rparr>) \<and>
   field (example_node ''R1'' ''9'') ''pin'' = Inr (Str ''9'') \<and>
   field (example_node ''R1'' ''9'') ''ref'' = Inr (Str ''R1'') \<and>
   dict_get example_parts (Str ''R1'') = Some (example_instance 0 ''R1'' ''10k'') \<and>
   \<not> list_ex (\<lambda>p. number_in (Str ''9'') (numbers p)) (pins (example_instance 0 ''R1'' ''10k'')) \<and>
   read_kicad_netlist ''example.net''
     (example_netlist [example_component ''R1'' ''10k'', example_component ''R2'' ''22k'']
        [List example_single_net, List example_bad_net]) example_world =
     (Inl (KeyError_pin_not_found (Str ''9'') (refdes (example_instance 0 ''R1'' ''10k''))),
      example_world\<lparr>parts_constructed := 2,
        nets := nets (example_world\<lparr>parts_constructed := 2\<rparr>) @
          [\<lparr>net_name = Str ''GND'', net_defined_at = Some ''example.net'',
            connections = [(1, 0)]\<rparr>]\<rparr>)"
proof -
  note s = example_netlist_sections
  have h4: "populate_parts ''example.net'' [example_class]
     (tl (Symbol ''components'' #
          [example_component ''R1'' ''10k'', example_component ''R2'' ''22k''])) []
     example_world = (Inr example_parts, example_world\<lparr>parts_constructed := 2\<rparr>)"
    using example_populate_parts by simp
  have h6: "tl (Symbol ''nets'' # [List example_single_net, List example_bad_net]) =
     [List example_single_net] @ List example_bad_net # []"
    by simp
  have h7: "build_nets ''example.net'' example_parts [List example_single_net]
     (example_world\<lparr>parts_constructed := 2\<rparr>) =
     (Inr (), example_world\<lparr>parts_constructed := 2\<rparr>)"
    by (simp add: example_single_net_filtered)
  have h9: "find_all example_bad_net ''node'' =
     Inr ([example_node ''R2'' ''1''] @ example_node ''R1'' ''9'' # [])"
    by (simp add: example_net_nodes)
  have h10: "goes_nowhere ([example_node ''R2'' ''1''] @ example_node ''R1'' ''9'' # [])
      (Str ''GND'') = Inr False"
    by (simp add: goes_nowhere_def)
  have h11: "connect_nodes example_parts
      ((Net (Str ''GND''))\<lparr>net_defined_at := Some ''example.net''\<rparr>)
      [example_node ''R2'' ''1''] =
     (None, \<lparr>net_name = Str ''GND'', net_defined_at = Some ''example.net'',
             connections = [(1, 0)]\<rparr>)"
    by (simp add: connect_node_def and_then_def example_node_fields example_pin_numbers
          example_parts_lookup example_instance_fields Net_def connect_def)
  have h15: "\<not> list_ex (\<lambda>p. number_in (Str ''9'') (numbers p))
      (pins (example_instance 0 ''R1'' ''10k''))"
    by (simp add: example_instance_fields example_pins_def)
  note n = example_node_fields [of "''R1''" "''9''"]
  from pin_not_found [OF s(1) example_catalog s(2) h4 s(3) h6 h7 example_net_names(3) h9 h10
      h11 n example_parts_lookup(1) h15]
  show ?thesis
    using s example_catalog h4 h6 h7 example_net_names(3) h9 h10 h11 n example_parts_lookup(1) h15
    by (simp del: populate_parts.simps build_nets.simps connect_nodes.simps)
qed

text \<open>
  The claim C5 as the spec states it, for every node of the nets section, fails: the net below
  has a generated name and the single node \<^verbatim>\<open>(R1, 9)\<close>, the part \<^verbatim>\<open>R1\<close> is in the mapping and
  has no pin numbered 9, and the load returns the mapping. The loop body skips the net before it
  looks at its node.
\<close>

theorem pin_not_found_counterexample:
  "find_all example_floating_net ''node'' = Inr [example_node ''R1'' ''9''] \<and>
   field (example_node ''R1'' ''9'') ''pin'' = Inr (Str ''9'') \<and>
   field (example_node ''R1'' ''9'') ''ref'' = Inr (Str ''R1'') \<and>
   \<not> list_ex (\<lambda>p. number_in (Str ''9'') (numbers p)) (pins (example_instance 0 ''R1'' ''10k'')) \<and>
   read_kicad_netlist ''example.net''
     (example_netlist [example_component ''R1'' ''10k''] [List example_floating_net])
     example_world =
     (Inr ([(Str ''R1'', example_instance 0 ''R1'' ''10k'')],
           example_netlist [example_component ''R1'' ''10k''] [List example_floating_net]),
      example_world\<lparr>parts_constructed := 1\<rparr>)"
proof -
  have n: "find_all example_floating_net ''node'' = Inr [example_node ''R1'' ''9'']"
    by (simp add: example_floating_net_def example_node_def tagged_def)
  have m: "field example_floating_net ''name'' = Inr (Str ''Net-(R1-Pad9)'')"
    by (simp add: example_floating_net_def example_node_def lookups)
  have b: "\<And>parts w. build_net ''example.net'' parts (List example_floating_net) w = (Inr (), w)"
    by (simp add: build_net_def n m goes_nowhere_def)
  have p: "\<not> list_ex (\<lambda>p. number_in (Str ''9'') (numbers p))
      (pins (example_instance 0 ''R1'' ''10k''))"
    by (simp add: example_instance_fields example_pins_def)
  have "map_result read_kicad_netlist_partcls (tl [Symbol ''libparts'', example_libpart]) =
          Inr [example_class]"
    by (simp add: example_class_read)
  from read_kicad_netlist_populated [OF example_netlist_sections(1) this example_netlist_sections(2)]
  have "read_kicad_netlist ''example.net''
     (example_netlist [example_component ''R1'' ''10k''] [List example_floating_net])
     example_world =
     (Inr ([(Str ''R1'', example_instance 0 ''R1'' ''10k'')],
           example_netlist [example_component ''R1'' ''10k''] [List example_floating_net]),
      example_world\<lparr>parts_constructed := 1\<rparr>)"
    by (simp add: example_populate_first example_netlist_sections b del: populate_parts.simps)
  with n p example_node_fields show ?thesis by simp
qed

end
